theory Spec2Isabelle
  imports Main "HOL-Library.AList"
begin

section \<open>HTTP headers and the response writer\<close>

text \<open>
  Go's \<open>http.Header\<close> is a \<open>map[string][]string\<close>. It is modelled as an association
  list from keys to value lists; a lookup reads the first entry of a key. \<open>Header.Get\<close>
  and \<open>Header.Set\<close> canonicalise the key first (\<open>textproto.CanonicalMIMEHeaderKey\<close>);
  that function belongs to Go's standard library and is taken as the parameter
  \<open>canon\<close>. \<open>Get\<close> returns the first value stored under the canonical key, or the
  empty string; \<open>Set\<close> replaces the entry of the canonical key by the single value.
\<close>

type_synonym Header = "(string \<times> string list) list"

definition Header_Get :: "(string \<Rightarrow> string) \<Rightarrow> Header \<Rightarrow> string \<Rightarrow> string" where
  "Header_Get canon h k =
     (case map_of h (canon k) of
        None \<Rightarrow> []
      | Some vs \<Rightarrow> (case vs of [] \<Rightarrow> [] | v # _ \<Rightarrow> v))"

definition Header_Set :: "(string \<Rightarrow> string) \<Rightarrow> Header \<Rightarrow> string \<Rightarrow> string \<Rightarrow> Header" where
  "Header_Set canon h k v = AList.update (canon k) [v] h"

text \<open>The JSON-RPC error object of \<open>error.go\<close>. \<open>Data\<close> is an \<open>interface{}\<close> that
  the code under study never sets; \<open>None\<close> is Go's \<open>nil\<close>.\<close>

record Error =
  Code :: int
  Message :: string
  Data :: "string option"

text \<open>A request id is a string or a number; \<open>null\<close> is \<open>None\<close>.\<close>

datatype RequestID = IDString string | IDNumber int

text \<open>
  Modelled from the spec: the \<open>Request\<close> and \<open>Response\<close> structs are declared outside
  the files under study. The spec gives the request envelope as
  \<open>{jsonrpc, method, params, id}\<close> and the response envelope as
  \<open>{jsonrpc, result, error, id}\<close>; the code also sets the field \<open>RespHeaders\<close> of a
  response. A field the code leaves at its zero value is \<open>None\<close> (\<open>nil\<close>): \<open>Result\<close>
  is an \<open>interface{}\<close>, \<open>Error\<close> a pointer, \<open>RespHeaders\<close> a map.
\<close>

record Request =
  req_JSONRPC :: string
  req_Method :: string
  req_Params :: string
  req_ID :: "RequestID option"

record 'v Response =
  RespHeaders :: "Header option"
  JSONRPC :: string
  Result :: "'v option"
  Error :: "Error option"
  ID :: "RequestID option"

text \<open>Modelled from the spec: the constant \<open>Version\<close> is declared outside the files
  under study; the spec fixes the envelope's \<open>jsonrpc\<close> member to \<open>"2.0"\<close>.\<close>

definition Version :: string where
  "Version = ''2.0''"

text \<open>
  What a handler has put on an \<open>http.ResponseWriter\<close>: the header map, the status code
  once \<open>WriteHeader\<close> has been called, and the pieces written to the body in order. A
  body piece is a plain text or the JSON encoding of a response envelope (kept as the
  envelope itself). As in \<open>net/http\<close>, only the first \<open>WriteHeader\<close> counts, and a
  \<open>Write\<close> before any \<open>WriteHeader\<close> sends status 200 first.
\<close>

datatype 'v body_piece = PlainText string | JSONEnvelope "'v Response"

record 'v ResponseWriter =
  w_Header :: Header
  w_status :: "nat option"
  w_body :: "'v body_piece list"

definition StatusOK :: nat where
  "StatusOK = 200"

definition StatusMethodNotAllowed :: nat where
  "StatusMethodNotAllowed = 405"

definition WriteHeader :: "nat \<Rightarrow> 'v ResponseWriter \<Rightarrow> 'v ResponseWriter" where
  "WriteHeader code w = (if w_status w = None then w\<lparr>w_status := Some code\<rparr> else w)"

definition Write :: "'v body_piece \<Rightarrow> 'v ResponseWriter \<Rightarrow> 'v ResponseWriter" where
  "Write b w = (let w1 = WriteHeader StatusOK w in w1\<lparr>w_body := w_body w1 @ [b]\<rparr>)"

definition SetHeader :: "(string \<Rightarrow> string) \<Rightarrow> string \<Rightarrow> string \<Rightarrow> 'v ResponseWriter \<Rightarrow> 'v ResponseWriter" where
  "SetHeader canon k v w = w\<lparr>w_Header := Header_Set canon (w_Header w) k v\<rparr>"

section \<open>The error taxonomy (error.go)\<close>

definition ParseError :: int where
  "ParseError = - 32700"

definition InvalidRequestError :: int where
  "InvalidRequestError = - 32600"

definition MethodNotFoundError :: int where
  "MethodNotFoundError = - 32601"

definition InvalidParamsError :: int where
  "InvalidParamsError = - 32602"

definition InternalError :: int where
  "InternalError = - 32603"

definition errorMessage :: "(int \<times> string) list" where
  "errorMessage =
     [(ParseError, ''An error occurred on the server while parsing the JSON text.''),
      (InvalidRequestError, ''The JSON sent is not a valid Request object.''),
      (MethodNotFoundError, ''The method does not exist / is not available.''),
      (InvalidParamsError, ''Invalid method parameter(s).''),
      (InternalError, ''Internal JSON-RPC error.'')]"

definition ErrorMessage :: "int \<Rightarrow> string" where
  "ErrorMessage code = (case map_of errorMessage code of None \<Rightarrow> [] | Some m \<Rightarrow> m)"

text \<open>
  A Go \<open>error\<close> is an interface value: a dynamic type with its method set. The values
  that reach the server are
  \<^item> \<open>invalidRequestError{}\<close>, a value of the struct type, as \<open>ServeHTTP\<close> builds it;
  \<^item> a pointer \<open>&invalidRequestError{}\<close> (no code under study builds one; it is kept to
    show what the pointer's method set holds);
  \<^item> a \<open>methodNotFoundError\<close>, a string type;
  \<^item> an error of a type declared by the caller (\<open>errors.New\<close>, or a type of the
    caller's own), given by its \<open>Error()\<close> text, the code its \<open>ErrorCode()\<close> reports
    when the type has that method, and the header set its \<open>Headers()\<close> reports when
    the type has that one.
  The types \<open>parseError\<close>, \<open>invalidParamsError\<close> and \<open>internalError\<close> of
  \<open>error.go\<close> have no \<open>Error()\<close> method and so are no error values.
\<close>

datatype error =
    invalidRequestError
  | invalidRequestError_ptr
  | methodNotFoundError string
  | callerError string "int option" "Header option"

text \<open>\<open>err.Error()\<close>. For \<open>invalidRequestError\<close> the method has a value receiver
  and calls \<open>e.ErrorCode()\<close> on its addressable copy, so the text is the message of
  \<open>InvalidRequestError\<close> for the value and for the pointer.\<close>

fun err_Error :: "error \<Rightarrow> string" where
  "err_Error invalidRequestError = ErrorMessage InvalidRequestError"
| "err_Error invalidRequestError_ptr = ErrorMessage InvalidRequestError"
| "err_Error (methodNotFoundError m) = m"
| "err_Error (callerError m c hs) = m"

text \<open>
  The type assertion \<open>err.(ErrorCoder)\<close> and, when it holds, \<open>ErrorCode()\<close>.
  \<open>ErrorCode\<close> of \<open>invalidRequestError\<close> is declared on the pointer receiver
  (\<open>func (e *invalidRequestError) ErrorCode() int\<close>), so by Go's method sets the
  struct value does not implement \<open>ErrorCoder\<close> and the pointer does.
  \<open>ErrorCode\<close> of \<open>methodNotFoundError\<close> has a value receiver.
\<close>

fun err_ErrorCoder :: "error \<Rightarrow> int option" where
  "err_ErrorCoder invalidRequestError = None"
| "err_ErrorCoder invalidRequestError_ptr = Some InvalidRequestError"
| "err_ErrorCoder (methodNotFoundError m) = Some MethodNotFoundError"
| "err_ErrorCoder (callerError m c hs) = c"

text \<open>The type assertion \<open>err.(httptransport.Headerer)\<close> and, when it holds,
  \<open>Headers()\<close>. No error type of \<open>error.go\<close> has that method.\<close>

fun err_Headerer :: "error \<Rightarrow> Header option" where
  "err_Headerer invalidRequestError = None"
| "err_Headerer invalidRequestError_ptr = None"
| "err_Headerer (methodNotFoundError m) = None"
| "err_Headerer (callerError m c hs) = hs"

section \<open>The default error encoder\<close>

text \<open>
  \<open>DefaultErrorEncoder\<close>, statement by statement. The constant \<open>ContentType\<close> of the
  package is declared outside the files under study and is the parameter \<open>contentType\<close>.
  The loop \<open>for k := range headerer.Headers()\<close> visits every key of the error's header
  set; \<open>copyHeaders\<close> is that loop over the keys.
\<close>

fun copyHeaders :: "(string \<Rightarrow> string) \<Rightarrow> Header \<Rightarrow> string list \<Rightarrow> 'v ResponseWriter \<Rightarrow> 'v ResponseWriter" where
  "copyHeaders canon hs [] w = w"
| "copyHeaders canon hs (k # ks) w = copyHeaders canon hs ks (SetHeader canon k (Header_Get canon hs k) w)"

definition DefaultErrorEncoder ::
  "(string \<Rightarrow> string) \<Rightarrow> string \<Rightarrow> 'c \<Rightarrow> error \<Rightarrow> 'v ResponseWriter \<Rightarrow> 'v ResponseWriter" where
  "DefaultErrorEncoder canon contentType ctx err w =
     (let w1 = SetHeader canon ''Content-Type'' contentType w;
          w2 = (case err_Headerer err of
                  Some hs \<Rightarrow> copyHeaders canon hs (map fst hs) w1
                | None \<Rightarrow> w1);
          e = \<lparr>Code = InternalError, Message = err_Error err, Data = None\<rparr>;
          e' = (case err_ErrorCoder err of Some c \<Rightarrow> e\<lparr>Code := c\<rparr> | None \<Rightarrow> e);
          w3 = WriteHeader StatusOK w2
      in Write (JSONEnvelope \<lparr>RespHeaders = None, JSONRPC = Version, Result = None,
                              Error = Some e', ID = None\<rparr>) w3)"

section \<open>The method service (service.go)\<close>

text \<open>
  A hook (\<open>RequestFunc\<close>, \<open>ServiceResponseFunc\<close>) takes the context and a header map
  and returns a context. The map is a Go reference, so what the hook stores in it is
  seen by the caller and by the next hook: the hook returns the map as it leaves it.
  The context type \<open>'c\<close>, the decoded request \<open>'q\<close> and the endpoint's response \<open>'r\<close>
  are the caller's. A capability that returns \<open>(value, error)\<close> returns \<open>Inl err\<close>
  when \<open>err != nil\<close> and \<open>Inr value\<close> otherwise; raw params are strings of bytes.
\<close>

type_synonym 'c hook = "'c \<Rightarrow> Header \<Rightarrow> 'c \<times> Header"

text \<open>The arguments of \<open>logger.Log("err", err)\<close>. A logger acts on a state \<open>'l\<close> of
  its own (what it has recorded so far).\<close>

datatype keyval = KString string | KError error

record ('c, 'q, 'r, 'l) Service =
  s_e :: "'c \<Rightarrow> 'q \<Rightarrow> error + 'r"
  s_dec :: "'c \<Rightarrow> string \<Rightarrow> error + 'q"
  s_enc :: "'c \<Rightarrow> 'r \<Rightarrow> error + string"
  s_before :: "'c hook list"
  s_after :: "'c hook list"
  s_logger :: "keyval list \<Rightarrow> 'l \<Rightarrow> 'l"

text \<open>Modelled from the spec: \<open>log.NewNopLogger\<close> is outside the files under study;
  the spec says that the default logging capability is a no-op.\<close>

definition NewNopLogger :: "keyval list \<Rightarrow> 'l \<Rightarrow> 'l" where
  "NewNopLogger keyvals l = l"

definition ServiceBefore :: "'c hook list \<Rightarrow> ('c, 'q, 'r, 'l) Service \<Rightarrow> ('c, 'q, 'r, 'l) Service" where
  "ServiceBefore hooks s = s\<lparr>s_before := s_before s @ hooks\<rparr>"

definition ServiceAfter :: "'c hook list \<Rightarrow> ('c, 'q, 'r, 'l) Service \<Rightarrow> ('c, 'q, 'r, 'l) Service" where
  "ServiceAfter hooks s = s\<lparr>s_after := s_after s @ hooks\<rparr>"

definition ServiceErrorLogger :: "(keyval list \<Rightarrow> 'l \<Rightarrow> 'l) \<Rightarrow> ('c, 'q, 'r, 'l) Service \<Rightarrow> ('c, 'q, 'r, 'l) Service" where
  "ServiceErrorLogger lg s = s\<lparr>s_logger := lg\<rparr>"

definition NewService ::
  "('c \<Rightarrow> 'q \<Rightarrow> error + 'r) \<Rightarrow> ('c \<Rightarrow> string \<Rightarrow> error + 'q) \<Rightarrow> ('c \<Rightarrow> 'r \<Rightarrow> error + string) \<Rightarrow>
   (('c, 'q, 'r, 'l) Service \<Rightarrow> ('c, 'q, 'r, 'l) Service) list \<Rightarrow> ('c, 'q, 'r, 'l) Service" where
  "NewService e dec enc options =
     fold (\<lambda>option s. option s) options
       \<lparr>s_e = e, s_dec = dec, s_enc = enc, s_before = [], s_after = [], s_logger = NewNopLogger\<rparr>"

text \<open>
  The calls a request makes are recorded in order, each with its arguments: a hook
  (with its stage and its position in the hook list), the decode, endpoint and encode
  capabilities, the logger, and, in the server, the decoding of the envelope and the
  lookup in the service map.
\<close>

datatype stage = BeforeStage | AfterStage

datatype ('c, 'q, 'r) event =
    HookCall stage nat 'c Header
  | DecCall 'c string
  | EndpointCall 'c 'q
  | EncCall 'c 'r
  | LogCall "keyval list"
  | DecodeEnvelope string
  | Lookup string

text \<open>The loop \<open>for _, f := range hooks { ctx = f(ctx, headers) }\<close>, from position \<open>i\<close>
  of the list on: it returns the last context, the header map as the hooks left it,
  and the calls made.\<close>

fun run_hooks :: "stage \<Rightarrow> nat \<Rightarrow> 'c hook list \<Rightarrow> 'c \<Rightarrow> Header \<Rightarrow> 'c \<times> Header \<times> ('c, 'q, 'r) event list" where
  "run_hooks st i [] ctx h = (ctx, h, [])"
| "run_hooks st i (f # fs) ctx h =
     (case f ctx h of
        (ctx', h') \<Rightarrow>
          (case run_hooks st (Suc i) fs ctx' h' of
             (ctx'', h'', tr) \<Rightarrow> (ctx'', h'', HookCall st i ctx h # tr)))"

text \<open>
  \<open>ServeJSONRPC\<close>. \<open>hfc\<close> is \<open>HeaderFromContext\<close>, declared outside the files under
  study and taken as a parameter: it returns the header set a context carries, if any.
  The result is Go's triple \<open>(interface{}, http.Header, error)\<close>, \<open>None\<close> for \<open>nil\<close>,
  with the calls made and the logger's state.
\<close>

definition ServeJSONRPC ::
  "('c \<Rightarrow> Header option) \<Rightarrow> ('c, 'q, 'r, 'l) Service \<Rightarrow> 'c \<Rightarrow> string \<Rightarrow> 'l \<Rightarrow>
   (string option \<times> Header option \<times> error option) \<times> ('c, 'q, 'r) event list \<times> 'l" where
  "ServeJSONRPC hfc s ctx params l =
     (let reqHeaders = (case hfc ctx of Some h \<Rightarrow> h | None \<Rightarrow> []) in
      case run_hooks BeforeStage 0 (s_before s) ctx reqHeaders of
        (ctx1, reqHeaders1, tr1) \<Rightarrow>
          (case s_dec s ctx1 params of
             Inl err \<Rightarrow>
               ((None, None, Some err),
                tr1 @ [DecCall ctx1 params, LogCall [KString ''err'', KError err]],
                s_logger s [KString ''err'', KError err] l)
           | Inr request \<Rightarrow>
               (case s_e s ctx1 request of
                  Inl err \<Rightarrow>
                    ((None, None, Some err),
                     tr1 @ [DecCall ctx1 params, EndpointCall ctx1 request,
                            LogCall [KString ''err'', KError err]],
                     s_logger s [KString ''err'', KError err] l)
                | Inr response \<Rightarrow>
                    (case run_hooks AfterStage 0 (s_after s) ctx1 [] of
                       (ctx2, respHeaders, tr2) \<Rightarrow>
                         (case s_enc s ctx2 response of
                            Inl err \<Rightarrow>
                              ((None, None, Some err),
                               tr1 @ [DecCall ctx1 params, EndpointCall ctx1 request] @ tr2 @
                                 [EncCall ctx2 response, LogCall [KString ''err'', KError err]],
                               s_logger s [KString ''err'', KError err] l)
                          | Inr paramsResp \<Rightarrow>
                              ((Some paramsResp, Some respHeaders, None),
                               tr1 @ [DecCall ctx1 params, EndpointCall ctx1 request] @ tr2 @
                                 [EncCall ctx2 response],
                               l))))))"

section \<open>The dispatcher\<close>

text \<open>
  What the code calls outside the files under study, taken as parameters: the
  canonical form of a header key (\<open>net/textproto\<close>), the package constant
  \<open>ContentType\<close>, the content type that \<open>EncodeJSONResponse\<close> sets,
  \<open>HeaderNewContext\<close> and \<open>HeaderFromContext\<close>, and the decoding of a body into a
  request envelope (\<open>json.NewDecoder(r.Body).Decode(&req)\<close>; \<open>None\<close> when it returns
  an error).
\<close>

record 'c runtime =
  canonicalKey :: "string \<Rightarrow> string"
  ContentType :: string
  jsonContentType :: string
  HeaderNewContext :: "'c \<Rightarrow> Header \<Rightarrow> 'c"
  HeaderFromContext :: "'c \<Rightarrow> Header option"
  jsonDecode :: "string \<Rightarrow> Request option"

record 'c http_Request =
  r_Method :: string
  r_Header :: Header
  r_Body :: string
  r_Context :: 'c

definition MethodPost :: string where
  "MethodPost = ''POST''"

text \<open>A \<open>Handler\<close> is anything with a \<open>ServeJSONRPC\<close> method; a \<open>ServiceMap\<close> is a Go
  map from method names to handlers.\<close>

type_synonym ('c, 'q, 'r, 'v, 'l) Handler =
  "'c \<Rightarrow> string \<Rightarrow> 'l \<Rightarrow> ('v option \<times> Header option \<times> error option) \<times> ('c, 'q, 'r) event list \<times> 'l"

record ('c, 'q, 'r, 'v, 'l) Server =
  sm :: "string \<Rightarrow> ('c, 'q, 'r, 'v, 'l) Handler option"
  errorEncoder :: "'c \<Rightarrow> error \<Rightarrow> 'v ResponseWriter \<Rightarrow> 'v ResponseWriter"

definition ServerErrorEncoder ::
  "('c \<Rightarrow> error \<Rightarrow> 'v ResponseWriter \<Rightarrow> 'v ResponseWriter) \<Rightarrow> ('c, 'q, 'r, 'v, 'l) Server \<Rightarrow> ('c, 'q, 'r, 'v, 'l) Server" where
  "ServerErrorEncoder ee s = s\<lparr>errorEncoder := ee\<rparr>"

definition NewServer ::
  "'c runtime \<Rightarrow> (string \<Rightarrow> ('c, 'q, 'r, 'v, 'l) Handler option) \<Rightarrow>
   (('c, 'q, 'r, 'v, 'l) Server \<Rightarrow> ('c, 'q, 'r, 'v, 'l) Server) list \<Rightarrow> ('c, 'q, 'r, 'v, 'l) Server" where
  "NewServer rt smap options =
     fold (\<lambda>option s. option s) options
       \<lparr>sm = smap, errorEncoder = DefaultErrorEncoder (canonicalKey rt) (ContentType rt)\<rparr>"

text \<open>
  Modelled from the spec: \<open>httptransport.EncodeJSONResponse\<close> is outside the files
  under study. By the spec the success path writes the response envelope, the encoder
  sets the content type, and the HTTP status of a success is 200.
\<close>

definition EncodeJSONResponse ::
  "(string \<Rightarrow> string) \<Rightarrow> string \<Rightarrow> 'c \<Rightarrow> 'v ResponseWriter \<Rightarrow> 'v Response \<Rightarrow> 'v ResponseWriter" where
  "EncodeJSONResponse canon contentType ctx w res =
     Write (JSONEnvelope res) (WriteHeader StatusOK (SetHeader canon ''Content-Type'' contentType w))"

text \<open>\<open>ServeHTTP\<close>: the writer as the request leaves it, the calls made, and the
  logger's state.\<close>

definition ServeHTTP ::
  "'c runtime \<Rightarrow> ('c, 'q, 'r, 'v, 'l) Server \<Rightarrow> 'v ResponseWriter \<Rightarrow> 'c http_Request \<Rightarrow> 'l \<Rightarrow>
   'v ResponseWriter \<times> ('c, 'q, 'r) event list \<times> 'l" where
  "ServeHTTP rt s w r l =
     (if r_Method r \<noteq> MethodPost then
        (Write (PlainText (''405 must POST'' @ [CHR 0x0A]))
           (WriteHeader StatusMethodNotAllowed
              (SetHeader (canonicalKey rt) ''Content-Type'' ''text/plain; charset=utf-8'' w)),
         [], l)
      else
        let ctx = HeaderNewContext rt (r_Context r) (r_Header r) in
        case jsonDecode rt (r_Body r) of
          None \<Rightarrow> (errorEncoder s ctx invalidRequestError w, [DecodeEnvelope (r_Body r)], l)
        | Some req \<Rightarrow>
            (case sm s (req_Method req) of
               None \<Rightarrow>
                 (errorEncoder s ctx
                    (methodNotFoundError (''Method '' @ req_Method req @ '' was not found.'')) w,
                  [DecodeEnvelope (r_Body r), Lookup (req_Method req)], l)
             | Some srv \<Rightarrow>
                 (case srv ctx (req_Params req) l of
                    ((resp, respHeaders, err), tr, l') \<Rightarrow>
                      (case err of
                         Some err' \<Rightarrow>
                           (errorEncoder s ctx err' w,
                            [DecodeEnvelope (r_Body r), Lookup (req_Method req)] @ tr, l')
                       | None \<Rightarrow>
                           (EncodeJSONResponse (canonicalKey rt) (jsonContentType rt) ctx w
                              \<lparr>RespHeaders = respHeaders, JSONRPC = Version, Result = resp,
                               Error = None, ID = None\<rparr>,
                            [DecodeEnvelope (r_Body r), Lookup (req_Method req)] @ tr, l')))))"

section \<open>Fixtures of the repository's tests\<close>

text \<open>\<open>addBody\<close>, \<open>nopDecoder\<close>, \<open>nopEncoder\<close>, \<open>endpoint.Nop\<close> and \<open>mockLogger\<close>
  of the test file, and an \<open>errors.New\<close>. The mock logger's state is its two fields
  \<open>Called\<close> and \<open>LastArgs\<close>.\<close>

definition addBody :: string where
  "addBody = ''{\"jsonrpc\": \"2.0\", \"method\": \"add\", \"params\": [3, 2], \"id\": 1}''"

definition nopDecoder :: "'c \<Rightarrow> string \<Rightarrow> error + unit" where
  "nopDecoder ctx params = Inr ()"

definition nopEncoder :: "'c \<Rightarrow> unit \<Rightarrow> error + string" where
  "nopEncoder ctx response = Inr ''[]''"

definition endpoint_Nop :: "'c \<Rightarrow> unit \<Rightarrow> error + unit" where
  "endpoint_Nop ctx request = Inr ()"

definition errors_New :: "string \<Rightarrow> error" where
  "errors_New text = callerError text None None"

definition mockLogger_Log :: "keyval list \<Rightarrow> bool \<times> keyval list list \<Rightarrow> bool \<times> keyval list list" where
  "mockLogger_Log keyvals l = (True, snd l @ [keyvals])"

text \<open>A writer nothing has been written to (as \<open>net/http\<close> hands it to a handler),
  and an error of a caller's type that reports the code 42 and the header set
  \<open>{"X-Reason": ["teapot", "kettle"]}\<close>.\<close>

definition newWriter :: "string ResponseWriter" where
  "newWriter = \<lparr>w_Header = [], w_status = None, w_body = []\<rparr>"

definition errTeapot :: error where
  "errTeapot = callerError ''short and stout'' (Some 42) (Some [(''X-Reason'', [''teapot'', ''kettle''])])"

text \<open>
  An error of a caller's type whose header set was built as a map literal with the key
  \<open>x-reason\<close>, which is not in canonical form, and a canonical form for the keys of
  these examples: it sends \<open>x-reason\<close> to \<open>X-Reason\<close>, as Go's does, and leaves the
  other keys used here (already canonical) as they are.
\<close>

definition errLowercase :: error where
  "errLowercase = callerError ''oof'' None (Some [(''x-reason'', [''teapot''])])"

definition canonXReason :: "string \<Rightarrow> string" where
  "canonXReason k = (if k = ''x-reason'' then ''X-Reason'' else k)"

text \<open>
  Contexts for the examples: the header set a context carries, if any, and the values
  stored in it by \<open>context.WithValue\<close>, newest first. The runtime parameters of the
  examples take header keys as already canonical and decode the two bodies the tests
  post: \<open>addBody\<close>, and the same body naming the method \<open>missing\<close>.
\<close>

type_synonym tctx = "Header option \<times> (string \<times> int) list"

definition WithValue :: "string \<Rightarrow> int \<Rightarrow> tctx \<Rightarrow> tctx" where
  "WithValue k v ctx = (fst ctx, (k, v) # snd ctx)"

definition background :: tctx where
  "background = (None, [])"

definition missingBody :: string where
  "missingBody = ''{\"jsonrpc\": \"2.0\", \"method\": \"missing\", \"params\": [3, 2], \"id\": 1}''"

definition testDecode :: "string \<Rightarrow> Request option" where
  "testDecode b =
     (if b = addBody then
        Some \<lparr>req_JSONRPC = ''2.0'', req_Method = ''add'', req_Params = ''[3, 2]'',
              req_ID = Some (IDNumber 1)\<rparr>
      else if b = missingBody then
        Some \<lparr>req_JSONRPC = ''2.0'', req_Method = ''missing'', req_Params = ''[3, 2]'',
              req_ID = Some (IDNumber 1)\<rparr>
      else None)"

definition testRuntime :: "tctx runtime" where
  "testRuntime =
     \<lparr>canonicalKey = (\<lambda>k. k), ContentType = ''application/json; charset=utf-8'',
      jsonContentType = ''application/json; charset=utf-8'',
      HeaderNewContext = (\<lambda>ctx h. (Some h, snd ctx)), HeaderFromContext = fst,
      jsonDecode = testDecode\<rparr>"

text \<open>The two hooks of \<open>TestMultipleServerBefore\<close> (the first stores the value 1
  under \<open>"one"\<close>, the second only reads the context), a hook that sets a header, and
  capabilities that fail with \<open>errors.New("oof")\<close>.\<close>

definition setOne :: "tctx hook" where
  "setOne ctx h = (WithValue ''one'' 1 ctx, h)"

definition readOne :: "tctx hook" where
  "readOne ctx h = (ctx, h)"

definition setTrace :: "tctx hook" where
  "setTrace ctx h = (ctx, Header_Set (\<lambda>k. k) h ''X-Trace'' ''on'')"

definition badDecoder :: "tctx \<Rightarrow> string \<Rightarrow> error + unit" where
  "badDecoder ctx params = Inl (errors_New ''oof'')"

definition badEndpoint :: "tctx \<Rightarrow> unit \<Rightarrow> error + unit" where
  "badEndpoint ctx request = Inl (errors_New ''oof'')"

definition badEncoder :: "tctx \<Rightarrow> unit \<Rightarrow> error + string" where
  "badEncoder ctx response = Inl (errors_New ''oof'')"

type_synonym tservice = "(tctx, unit, unit, bool \<times> keyval list list) Service"

definition hooked :: "(tservice \<Rightarrow> tservice) list" where
  "hooked = [ServiceBefore [setOne], ServiceBefore [readOne], ServiceAfter [setTrace],
             ServiceErrorLogger mockLogger_Log]"

definition addService :: tservice where
  "addService = NewService endpoint_Nop nopDecoder nopEncoder hooked"

definition plainService :: tservice where
  "plainService = NewService endpoint_Nop nopDecoder nopEncoder []"

definition badDecodeService :: tservice where
  "badDecodeService = NewService endpoint_Nop badDecoder nopEncoder hooked"

definition badEndpointService :: tservice where
  "badEndpointService = NewService badEndpoint nopDecoder nopEncoder hooked"

definition badEncodeService :: tservice where
  "badEncodeService = NewService endpoint_Nop nopDecoder badEncoder hooked"

text \<open>
  Servers as the tests build them, with one service registered under \<open>"add"\<close> and
  the default error encoder, and the requests posted to them: \<open>addBody\<close>, the body
  naming \<open>missing\<close>, a body that is no JSON, and a GET.
\<close>

type_synonym tserver = "(tctx, unit, unit, string, bool \<times> keyval list list) Server"

definition serverOf :: "tservice \<Rightarrow> tserver" where
  "serverOf svc =
     NewServer testRuntime (\<lambda>m. if m = ''add'' then Some (ServeJSONRPC fst svc) else None) []"

definition post :: "string \<Rightarrow> tctx http_Request" where
  "post body =
     \<lparr>r_Method = ''POST'', r_Header = [(''Content-Type'', [''application/json''])],
      r_Body = body, r_Context = background\<rparr>"

definition getRequest :: "tctx http_Request" where
  "getRequest = \<lparr>r_Method = ''GET'', r_Header = [], r_Body = [], r_Context = background\<rparr>"

section \<open>Describing the calls of a request\<close>

text \<open>
  The hook order as the specification words it: the hooks run in registration order
  and each receives the context returned by the previous one. \<open>hook_state fs (c, h) i\<close>
  is the context and header map that the hook at position \<open>i\<close> receives when the list
  \<open>fs\<close> is started on \<open>(c, h)\<close>: position 0 receives \<open>(c, h)\<close>, position \<open>i + 1\<close>
  what the hook at position \<open>i\<close> returned. \<open>threaded_calls\<close> is the list of calls this
  describes, one per registered hook, in registration order.
\<close>

fun hook_state :: "'c hook list \<Rightarrow> 'c \<times> Header \<Rightarrow> nat \<Rightarrow> 'c \<times> Header" where
  "hook_state fs ch 0 = ch"
| "hook_state fs ch (Suc i) = (case hook_state fs ch i of (c, h) \<Rightarrow> (fs ! i) c h)"

definition threaded_calls :: "stage \<Rightarrow> 'c hook list \<Rightarrow> 'c \<Rightarrow> Header \<Rightarrow> ('c, 'q, 'r) event list" where
  "threaded_calls st fs c h =
     map (\<lambda>i. HookCall st i (fst (hook_state fs (c, h) i)) (snd (hook_state fs (c, h) i)))
       [0..<length fs]"

text \<open>The kind of a recorded call, the calls of one kind in a trace, and their number.\<close>

datatype callkind =
    HookKind stage
  | DecKind
  | EndpointKind
  | EncKind
  | LogKind
  | DecodeEnvelopeKind
  | LookupKind

fun kind_of :: "('c, 'q, 'r) event \<Rightarrow> callkind" where
  "kind_of (HookCall st i c h) = HookKind st"
| "kind_of (DecCall c p) = DecKind"
| "kind_of (EndpointCall c q) = EndpointKind"
| "kind_of (EncCall c r) = EncKind"
| "kind_of (LogCall kvs) = LogKind"
| "kind_of (DecodeEnvelope b) = DecodeEnvelopeKind"
| "kind_of (Lookup m) = LookupKind"

definition calls_of :: "callkind \<Rightarrow> ('c, 'q, 'r) event list \<Rightarrow> ('c, 'q, 'r) event list" where
  "calls_of k tr = filter (\<lambda>ev. kind_of ev = k) tr"

definition count_calls :: "callkind \<Rightarrow> ('c, 'q, 'r) event list \<Rightarrow> nat" where
  "count_calls k tr = length (calls_of k tr)"

section \<open>The response writer and the header copy\<close>

lemma WriteHeader_simps [simp]:
  "w_Header (WriteHeader c w) = w_Header w"
  "w_body (WriteHeader c w) = w_body w"
  "w_status (WriteHeader c w) = (case w_status w of None \<Rightarrow> Some c | Some c' \<Rightarrow> Some c')"
  by (simp_all add: WriteHeader_def split: option.splits)

lemma Write_simps [simp]:
  "w_Header (Write b w) = w_Header w"
  "w_body (Write b w) = w_body w @ [b]"
  "w_status (Write b w) = (case w_status w of None \<Rightarrow> Some StatusOK | Some c' \<Rightarrow> Some c')"
  by (simp_all add: Write_def Let_def split: option.splits)

lemma SetHeader_simps [simp]:
  "w_body (SetHeader canon k v w) = w_body w"
  "w_status (SetHeader canon k v w) = w_status w"
  by (simp_all add: SetHeader_def)

lemma copyHeaders_status [simp]: "w_status (copyHeaders canon hs ks w) = w_status w"
  by (induction ks arbitrary: w) simp_all

lemma copyHeaders_body [simp]: "w_body (copyHeaders canon hs ks w) = w_body w"
  by (induction ks arbitrary: w) simp_all

lemma Header_Get_canon: "canon k = canon k' \<Longrightarrow> Header_Get canon h k = Header_Get canon h k'"
  by (simp add: Header_Get_def)

lemma map_of_SetHeader:
  "map_of (w_Header (SetHeader canon a v w)) x =
     (if x = canon a then Some [v] else map_of (w_Header w) x)"
  by (simp add: SetHeader_def Header_Set_def update_conv')

lemma Header_Get_SetHeader:
  "Header_Get canon (w_Header (SetHeader canon a v w)) k =
     (if canon k = canon a then v else Header_Get canon (w_Header w) k)"
  by (simp add: Header_Get_def map_of_SetHeader)

text \<open>After the copy loop, the entry of a canonical key that some copied key has is the
  single value \<open>Get\<close> reads from the error's header set; every other entry is as before.\<close>

lemma copyHeaders_map_of:
  "map_of (w_Header (copyHeaders canon hs ks w)) (canon k) =
     (if canon k \<in> canon ` set ks then Some [Header_Get canon hs k]
      else map_of (w_Header w) (canon k))"
proof (induction ks arbitrary: w)
  case Nil
  show ?case by simp
next
  case (Cons a ks)
  show ?case
    using Header_Get_canon [of canon k a hs]
    by (simp add: Cons.IH map_of_SetHeader)
qed

lemma copyHeaders_Get:
  "k \<in> set ks \<Longrightarrow>
   Header_Get canon (w_Header (copyHeaders canon hs ks w)) k = Header_Get canon hs k"
  using copyHeaders_map_of [of canon hs ks w k]
  by (simp add: Header_Get_def [of canon "w_Header (copyHeaders canon hs ks w)"])

lemma DefaultErrorEncoder_status:
  "w_status w = None \<Longrightarrow> w_status (DefaultErrorEncoder canon ct ctx err w) = Some 200"
  by (simp add: DefaultErrorEncoder_def Let_def StatusOK_def split: option.splits)

lemma DefaultErrorEncoder_body:
  "w_body (DefaultErrorEncoder canon ct ctx err w) =
     w_body w @
       [JSONEnvelope \<lparr>RespHeaders = None, JSONRPC = Version, Result = None,
          Error = Some \<lparr>Code = (case err_ErrorCoder err of None \<Rightarrow> - 32603 | Some c \<Rightarrow> c),
                        Message = err_Error err, Data = None\<rparr>,
          ID = None\<rparr>]"
  by (simp add: DefaultErrorEncoder_def Let_def InternalError_def split: option.splits)

lemma DefaultErrorEncoder_headers:
  "err_Headerer err = Some hs \<Longrightarrow> k \<in> fst ` set hs \<Longrightarrow>
   Header_Get canon (w_Header (DefaultErrorEncoder canon ct ctx err w)) k = Header_Get canon hs k"
  by (simp add: DefaultErrorEncoder_def Let_def copyHeaders_Get)

section \<open>Claims about the default error encoder\<close>

text \<open>
  What the default error encoder writes for every error, on a writer whose status has
  not been written yet: status 200; one response envelope whose error object has the
  code -32603 unless the error implements \<open>ErrorCoder\<close>, in which case it has the code
  \<open>ErrorCode()\<close> reports, and has the error's \<open>Error()\<close> string as its message; and for
  every key of the header set an error implementing \<open>Headerer\<close> exposes, \<open>Get\<close> on the
  response at that key returns what \<open>Get\<close> on the error's set returns, which is the
  first value under the key's canonical form, or the empty string.
\<close>

lemma DefaultErrorEncoder_writes:
  assumes "w_status w = None"
  shows "w_status (DefaultErrorEncoder canon ct ctx err w) = Some 200 \<and>
         w_body (DefaultErrorEncoder canon ct ctx err w) =
           w_body w @
             [JSONEnvelope \<lparr>RespHeaders = None, JSONRPC = Version, Result = None,
                Error = Some \<lparr>Code = (case err_ErrorCoder err of None \<Rightarrow> - 32603 | Some c \<Rightarrow> c),
                              Message = err_Error err, Data = None\<rparr>,
                ID = None\<rparr>] \<and>
         (\<forall>hs k. err_Headerer err = Some hs \<longrightarrow> k \<in> fst ` set hs \<longrightarrow>
            Header_Get canon (w_Header (DefaultErrorEncoder canon ct ctx err w)) k =
              Header_Get canon hs k)"
proof (intro conjI allI impI)
  show "w_status (DefaultErrorEncoder canon ct ctx err w) = Some 200"
    using assms by (rule DefaultErrorEncoder_status)
next
  show "w_body (DefaultErrorEncoder canon ct ctx err w) =
           w_body w @
             [JSONEnvelope \<lparr>RespHeaders = None, JSONRPC = Version, Result = None,
                Error = Some \<lparr>Code = (case err_ErrorCoder err of None \<Rightarrow> - 32603 | Some c \<Rightarrow> c),
                              Message = err_Error err, Data = None\<rparr>,
                ID = None\<rparr>]"
    by (rule DefaultErrorEncoder_body)
next
  fix hs k
  assume "err_Headerer err = Some hs" and "k \<in> fst ` set hs"
  then show "Header_Get canon (w_Header (DefaultErrorEncoder canon ct ctx err w)) k =
               Header_Get canon hs k"
    by (rule DefaultErrorEncoder_headers)
qed

text \<open>
  C3. The code, the message and the status are as specified, but the header set an
  error exposes is not copied as it is. The loop does \<open>Set(k, Get(k))\<close> for every key
  \<open>k\<close> of the set, so only the first value of a key reaches the response: the error
  exposing \<open>{"X-Reason": ["teapot", "kettle"]}\<close> leaves \<open>X-Reason: teapot\<close> on the
  response (with code 42, its message and status 200). A key that is not in canonical
  form is read through its canonical form, where the set holds nothing: the error
  exposing \<open>{"x-reason": ["teapot"]}\<close> leaves \<open>X-Reason\<close> with the empty string.
\<close>

theorem DefaultErrorEncoder_copies_first_value_only:
  "err_Headerer errTeapot = Some [(''X-Reason'', [''teapot'', ''kettle''])]
   \<and> w_Header (DefaultErrorEncoder (\<lambda>k. k) ''application/json'' () errTeapot newWriter) =
       [(''Content-Type'', [''application/json'']), (''X-Reason'', [''teapot''])]
   \<and> w_status (DefaultErrorEncoder (\<lambda>k. k) ''application/json'' () errTeapot newWriter) = Some 200
   \<and> w_body (DefaultErrorEncoder (\<lambda>k. k) ''application/json'' () errTeapot newWriter) =
       [JSONEnvelope \<lparr>RespHeaders = None, JSONRPC = ''2.0'', Result = None,
          Error = Some \<lparr>Code = 42, Message = ''short and stout'', Data = None\<rparr>, ID = None\<rparr>]
   \<and> err_Headerer errLowercase = Some [(''x-reason'', [''teapot''])]
   \<and> w_Header (DefaultErrorEncoder canonXReason ''application/json'' () errLowercase newWriter) =
       [(''Content-Type'', [''application/json'']), (''X-Reason'', [''''])]
   \<and> w_body (DefaultErrorEncoder canonXReason ''application/json'' () errLowercase newWriter) =
       [JSONEnvelope \<lparr>RespHeaders = None, JSONRPC = ''2.0'', Result = None,
          Error = Some \<lparr>Code = - 32603, Message = ''oof'', Data = None\<rparr>, ID = None\<rparr>]"
  by (simp add: DefaultErrorEncoder_def Let_def errTeapot_def errLowercase_def newWriter_def
      canonXReason_def SetHeader_def Header_Set_def Header_Get_def Write_def WriteHeader_def
      StatusOK_def Version_def InternalError_def)

section \<open>The hook loop and the pipeline\<close>

text \<open>The loop over a hook list makes exactly the calls \<open>threaded_calls\<close> describes and
  ends in the state \<open>hook_state\<close> gives after the last hook.\<close>

lemma hook_state_Cons:
  "hook_state (f # fs) ch (Suc j) = hook_state fs (case ch of (c, h) \<Rightarrow> f c h) j"
  by (induction j) simp_all

lemma threaded_calls_Nil [simp]: "threaded_calls st [] c h = []"
  by (simp add: threaded_calls_def)

lemma run_hooks_threaded:
  "run_hooks st i fs c h =
     (fst (hook_state fs (c, h) (length fs)), snd (hook_state fs (c, h) (length fs)),
      map (\<lambda>j. HookCall st (i + j) (fst (hook_state fs (c, h) j)) (snd (hook_state fs (c, h) j)))
        [0..<length fs])"
proof (induction fs arbitrary: i c h)
  case Nil
  show ?case by simp
next
  case (Cons f fs)
  obtain c' h' where f: "f c h = (c', h')" by (cases "f c h")
  have upt: "[0..<length (f # fs)] = 0 # map Suc [0..<length fs]"
    by (simp add: upt_conv_Cons map_Suc_upt del: upt_Suc)
  show ?case
    unfolding upt
    by (simp add: f Cons.IH hook_state_Cons comp_def del: hook_state.simps(2))
qed

lemma run_hooks_0:
  "run_hooks st 0 fs c h =
     (fst (hook_state fs (c, h) (length fs)), snd (hook_state fs (c, h) (length fs)),
      threaded_calls st fs c h)"
  by (simp add: run_hooks_threaded threaded_calls_def)

lemma calls_of_threaded:
  "calls_of k (threaded_calls st fs c h) = (if k = HookKind st then threaded_calls st fs c h else [])"
  by (auto simp add: calls_of_def threaded_calls_def filter_map comp_def)

lemma length_threaded [simp]: "length (threaded_calls st fs c h) = length fs"
  by (simp add: threaded_calls_def)

lemma calls_of_append [simp]: "calls_of k (xs @ ys) = calls_of k xs @ calls_of k ys"
  by (simp add: calls_of_def)

lemma calls_of_Cons: "calls_of k (x # xs) = (if kind_of x = k then x # calls_of k xs else calls_of k xs)"
  by (simp add: calls_of_def)

lemma calls_of_Nil [simp]: "calls_of k [] = []"
  by (simp add: calls_of_def)

lemma count_calls_append [simp]: "count_calls k (xs @ ys) = count_calls k xs + count_calls k ys"
  by (simp add: count_calls_def)

lemma count_calls_Cons [simp]:
  "count_calls k (x # xs) = (if kind_of x = k then Suc (count_calls k xs) else count_calls k xs)"
  by (simp add: count_calls_def calls_of_Cons)

lemma count_calls_Nil [simp]: "count_calls k [] = 0"
  by (simp add: count_calls_def)

lemma count_calls_threaded [simp]:
  "count_calls k (threaded_calls st fs c h) = (if k = HookKind st then length fs else 0)"
  by (simp add: count_calls_def calls_of_threaded)

lemma ServeJSONRPC_dec_fails:
  fixes s :: "('c, 'q, 'r, 'l) Service" and hfc :: "'c \<Rightarrow> Header option" and ctx :: 'c
    and params :: string
  defines "h0 \<equiv> case hfc ctx of Some h \<Rightarrow> h | None \<Rightarrow> []"
  defines "c1 \<equiv> fst (hook_state (s_before s) (ctx, h0) (length (s_before s)))"
  assumes "s_dec s c1 params = Inl err"
  shows "ServeJSONRPC hfc s ctx params l =
           ((None, None, Some err),
            threaded_calls BeforeStage (s_before s) ctx h0 @
              [DecCall c1 params, LogCall [KString ''err'', KError err]],
            s_logger s [KString ''err'', KError err] l)"
  using assms by (simp add: ServeJSONRPC_def Let_def run_hooks_0)

lemma ServeJSONRPC_e_fails:
  fixes s :: "('c, 'q, 'r, 'l) Service" and hfc :: "'c \<Rightarrow> Header option" and ctx :: 'c
    and params :: string
  defines "h0 \<equiv> case hfc ctx of Some h \<Rightarrow> h | None \<Rightarrow> []"
  defines "c1 \<equiv> fst (hook_state (s_before s) (ctx, h0) (length (s_before s)))"
  assumes "s_dec s c1 params = Inr request" and "s_e s c1 request = Inl err"
  shows "ServeJSONRPC hfc s ctx params l =
           ((None, None, Some err),
            threaded_calls BeforeStage (s_before s) ctx h0 @
              [DecCall c1 params, EndpointCall c1 request, LogCall [KString ''err'', KError err]],
            s_logger s [KString ''err'', KError err] l)"
  using assms by (simp add: ServeJSONRPC_def Let_def run_hooks_0)

lemma ServeJSONRPC_enc_fails:
  fixes s :: "('c, 'q, 'r, 'l) Service" and hfc :: "'c \<Rightarrow> Header option" and ctx :: 'c
    and params :: string
  defines "h0 \<equiv> case hfc ctx of Some h \<Rightarrow> h | None \<Rightarrow> []"
  defines "c1 \<equiv> fst (hook_state (s_before s) (ctx, h0) (length (s_before s)))"
  defines "c2 \<equiv> fst (hook_state (s_after s) (c1, []) (length (s_after s)))"
  assumes "s_dec s c1 params = Inr request" and "s_e s c1 request = Inr response"
    and "s_enc s c2 response = Inl err"
  shows "ServeJSONRPC hfc s ctx params l =
           ((None, None, Some err),
            threaded_calls BeforeStage (s_before s) ctx h0 @
              [DecCall c1 params, EndpointCall c1 request] @
              threaded_calls AfterStage (s_after s) c1 [] @
              [EncCall c2 response, LogCall [KString ''err'', KError err]],
            s_logger s [KString ''err'', KError err] l)"
  using assms by (simp add: ServeJSONRPC_def Let_def run_hooks_0)

lemma ServeJSONRPC_succeeds:
  fixes s :: "('c, 'q, 'r, 'l) Service" and hfc :: "'c \<Rightarrow> Header option" and ctx :: 'c
    and params :: string
  defines "h0 \<equiv> case hfc ctx of Some h \<Rightarrow> h | None \<Rightarrow> []"
  defines "c1 \<equiv> fst (hook_state (s_before s) (ctx, h0) (length (s_before s)))"
  defines "c2 \<equiv> fst (hook_state (s_after s) (c1, []) (length (s_after s)))"
  assumes "s_dec s c1 params = Inr request" and "s_e s c1 request = Inr response"
    and "s_enc s c2 response = Inr paramsResp"
  shows "ServeJSONRPC hfc s ctx params l =
           ((Some paramsResp, Some (snd (hook_state (s_after s) (c1, []) (length (s_after s)))), None),
            threaded_calls BeforeStage (s_before s) ctx h0 @
              [DecCall c1 params, EndpointCall c1 request] @
              threaded_calls AfterStage (s_after s) c1 [] @
              [EncCall c2 response],
            l)"
  using assms by (simp add: ServeJSONRPC_def Let_def run_hooks_0)

lemma NewService_snoc:
  "NewService e dec enc (opts @ [opt]) = opt (NewService e dec enc opts)"
  by (simp add: NewService_def)

lemma NewService_Nil:
  "NewService e dec enc [] =
     \<lparr>s_e = e, s_dec = dec, s_enc = enc, s_before = [], s_after = [], s_logger = NewNopLogger\<rparr>"
  by (simp add: NewService_def)

lemma NewService_before_concat:
  "s_before (NewService e dec enc (map ServiceBefore bss)) = concat bss"
  by (induction bss rule: rev_induct) (simp_all add: NewService_Nil NewService_snoc ServiceBefore_def)

lemma NewService_after_concat:
  "s_after (NewService e dec enc (map ServiceAfter ass)) = concat ass"
  by (induction ass rule: rev_induct) (simp_all add: NewService_Nil NewService_snoc ServiceAfter_def)

lemma threaded_calls_first:
  "fs \<noteq> [] \<Longrightarrow> hd (threaded_calls st fs c h) = HookCall st 0 c h"
  by (cases fs) (simp_all add: threaded_calls_def upt_conv_Cons del: upt_Suc)

lemma threaded_calls_nth:
  "i < length fs \<Longrightarrow>
   threaded_calls st fs c h ! i =
     HookCall st i (fst (hook_state fs (c, h) i)) (snd (hook_state fs (c, h) i))"
  by (simp add: threaded_calls_def)

lemma threaded_calls_step:
  assumes "Suc i < length fs"
  shows "\<exists>c' h'. threaded_calls st fs c h ! i = HookCall st i c' h' \<and>
           threaded_calls st fs c h ! Suc i =
             HookCall st (Suc i) (fst ((fs ! i) c' h')) (snd ((fs ! i) c' h'))"
proof -
  from assms have i: "i < length fs" by simp
  show ?thesis
    using threaded_calls_nth [OF i, of st c h] threaded_calls_nth [OF assms, of st c h]
    by (intro exI [of _ "fst (hook_state fs (c, h) i)"] exI [of _ "snd (hook_state fs (c, h) i)"])
      (simp add: case_prod_beta)
qed

lemma ServeJSONRPC_before_calls:
  "calls_of (HookKind BeforeStage) (fst (snd (ServeJSONRPC hfc s ctx params l))) =
     threaded_calls BeforeStage (s_before s) ctx (case hfc ctx of Some h \<Rightarrow> h | None \<Rightarrow> [])"
  by (simp add: ServeJSONRPC_def Let_def run_hooks_0 calls_of_threaded calls_of_Cons
      split: sum.splits prod.splits)

lemma ServeJSONRPC_after_calls:
  fixes s :: "('c, 'q, 'r, 'l) Service" and hfc :: "'c \<Rightarrow> Header option" and ctx :: 'c
    and params :: string
  defines "h0 \<equiv> case hfc ctx of Some h \<Rightarrow> h | None \<Rightarrow> []"
  defines "c1 \<equiv> fst (hook_state (s_before s) (ctx, h0) (length (s_before s)))"
  assumes "s_dec s c1 params = Inr request" and "s_e s c1 request = Inr response"
  shows "calls_of (HookKind AfterStage) (fst (snd (ServeJSONRPC hfc s ctx params l))) =
           threaded_calls AfterStage (s_after s) c1 []"
  using assms
  by (simp add: ServeJSONRPC_def Let_def run_hooks_0 calls_of_threaded calls_of_Cons
      split: sum.splits prod.splits)

lemma NewService_before_snoc:
  "s_before (NewService e dec enc (opts @ [ServiceBefore hooks])) =
     s_before (NewService e dec enc opts) @ hooks"
  "s_before (NewService e dec enc (opts @ [ServiceAfter hooks])) = s_before (NewService e dec enc opts)"
  "s_before (NewService e dec enc (opts @ [ServiceErrorLogger lg])) = s_before (NewService e dec enc opts)"
  by (simp_all add: NewService_snoc ServiceBefore_def ServiceAfter_def ServiceErrorLogger_def)

lemma NewService_after_snoc:
  "s_after (NewService e dec enc (opts @ [ServiceAfter hooks])) =
     s_after (NewService e dec enc opts) @ hooks"
  "s_after (NewService e dec enc (opts @ [ServiceBefore hooks])) = s_after (NewService e dec enc opts)"
  "s_after (NewService e dec enc (opts @ [ServiceErrorLogger lg])) = s_after (NewService e dec enc opts)"
  by (simp_all add: NewService_snoc ServiceBefore_def ServiceAfter_def ServiceErrorLogger_def)

text \<open>Unfolding the examples.\<close>

lemmas fixture_defs = badDecodeService_def badEndpointService_def badEncodeService_def addService_def
  plainService_def
  hooked_def NewService_def ServiceBefore_def ServiceAfter_def ServiceErrorLogger_def
  setOne_def readOne_def setTrace_def badDecoder_def badEndpoint_def badEncoder_def
  nopDecoder_def nopEncoder_def endpoint_Nop_def errors_New_def mockLogger_Log_def
  WithValue_def background_def Header_Set_def

lemma triple_collapse: "x = (fst x, fst (snd x), snd (snd x))"
  by simp

section \<open>Claims about the method service\<close>

text \<open>
  C5. The pipeline stops at the first failing stage. \<open>c1\<close> is the context the
  before-hooks leave, \<open>c2\<close> the one the after-hooks leave. When decode fails, the
  endpoint, the after-hooks and encode are not called; when the endpoint fails, the
  after-hooks and encode are not called. In each failure case (decode, endpoint,
  encode) \<open>ServeJSONRPC\<close> returns the failing stage's error as it is, and the logger of
  the service is called exactly once, with \<open>"err"\<close> and that error. When all stages
  succeed the logger is not called. The logger of a service built without options does
  nothing.
\<close>

theorem ServeJSONRPC_short_circuits:
  fixes s :: "('c, 'q, 'r, 'l) Service" and hfc :: "'c \<Rightarrow> Header option" and ctx :: 'c
    and params :: string
  defines "h0 \<equiv> case hfc ctx of Some h \<Rightarrow> h | None \<Rightarrow> []"
  defines "c1 \<equiv> fst (hook_state (s_before s) (ctx, h0) (length (s_before s)))"
  defines "c2 \<equiv> fst (hook_state (s_after s) (c1, []) (length (s_after s)))"
  assumes run: "ServeJSONRPC hfc s ctx params l = (res, tr, l')"
  shows "(\<forall>err. s_dec s c1 params = Inl err \<longrightarrow>
            res = (None, None, Some err) \<and>
            count_calls EndpointKind tr = 0 \<and> count_calls (HookKind AfterStage) tr = 0 \<and>
            count_calls EncKind tr = 0 \<and>
            calls_of LogKind tr = [LogCall [KString ''err'', KError err]] \<and>
            l' = s_logger s [KString ''err'', KError err] l)
       \<and> (\<forall>request err. s_dec s c1 params = Inr request \<longrightarrow> s_e s c1 request = Inl err \<longrightarrow>
            res = (None, None, Some err) \<and>
            count_calls (HookKind AfterStage) tr = 0 \<and> count_calls EncKind tr = 0 \<and>
            calls_of LogKind tr = [LogCall [KString ''err'', KError err]] \<and>
            l' = s_logger s [KString ''err'', KError err] l)
       \<and> (\<forall>request response err. s_dec s c1 params = Inr request \<longrightarrow>
            s_e s c1 request = Inr response \<longrightarrow> s_enc s c2 response = Inl err \<longrightarrow>
            res = (None, None, Some err) \<and>
            calls_of LogKind tr = [LogCall [KString ''err'', KError err]] \<and>
            l' = s_logger s [KString ''err'', KError err] l)
       \<and> (\<forall>request response paramsResp. s_dec s c1 params = Inr request \<longrightarrow>
            s_e s c1 request = Inr response \<longrightarrow> s_enc s c2 response = Inr paramsResp \<longrightarrow>
            count_calls LogKind tr = 0 \<and> l' = l)
       \<and> s_logger (NewService e dec enc []) keyvals l0 = l0"
proof (intro conjI allI impI)
  fix err
  assume d: "s_dec s c1 params = Inl err"
  note eq = ServeJSONRPC_dec_fails [where s=s and hfc=hfc and ctx=ctx and params=params and l=l, OF d [unfolded c1_def h0_def]]
  from run eq have r: "res = (None, None, Some err)"
    and t: "tr = threaded_calls BeforeStage (s_before s) ctx h0 @
              [DecCall c1 params, LogCall [KString ''err'', KError err]]"
    and l: "l' = s_logger s [KString ''err'', KError err] l"
    by (simp_all add: c2_def c1_def h0_def)
  show "res = (None, None, Some err)" by (rule r)
  show "l' = s_logger s [KString ''err'', KError err] l" by (rule l)
  show "count_calls EndpointKind tr = 0" by (simp add: t)
  show "count_calls (HookKind AfterStage) tr = 0" by (simp add: t)
  show "count_calls EncKind tr = 0" by (simp add: t)
  show "calls_of LogKind tr = [LogCall [KString ''err'', KError err]]"
    by (simp add: t calls_of_threaded calls_of_Cons)
next
  fix request err
  assume d: "s_dec s c1 params = Inr request" and e: "s_e s c1 request = Inl err"
  note eq = ServeJSONRPC_e_fails [where s=s and hfc=hfc and ctx=ctx and params=params and l=l, 
      OF d [unfolded c1_def h0_def] e [unfolded c1_def h0_def]]
  from run eq have r: "res = (None, None, Some err)"
    and t: "tr = threaded_calls BeforeStage (s_before s) ctx h0 @
              [DecCall c1 params, EndpointCall c1 request, LogCall [KString ''err'', KError err]]"
    and l: "l' = s_logger s [KString ''err'', KError err] l"
    by (simp_all add: c2_def c1_def h0_def)
  show "res = (None, None, Some err)" by (rule r)
  show "l' = s_logger s [KString ''err'', KError err] l" by (rule l)
  show "count_calls (HookKind AfterStage) tr = 0" by (simp add: t)
  show "count_calls EncKind tr = 0" by (simp add: t)
  show "calls_of LogKind tr = [LogCall [KString ''err'', KError err]]"
    by (simp add: t calls_of_threaded calls_of_Cons)
next
  fix request response err
  assume d: "s_dec s c1 params = Inr request" and e: "s_e s c1 request = Inr response"
    and n: "s_enc s c2 response = Inl err"
  note eq = ServeJSONRPC_enc_fails [where s=s and hfc=hfc and ctx=ctx and params=params and l=l, 
      OF d [unfolded c1_def h0_def] e [unfolded c1_def h0_def] n [unfolded c2_def c1_def h0_def]]
  from run eq have r: "res = (None, None, Some err)"
    and t: "tr = threaded_calls BeforeStage (s_before s) ctx h0 @
              [DecCall c1 params, EndpointCall c1 request] @
              threaded_calls AfterStage (s_after s) c1 [] @
              [EncCall c2 response, LogCall [KString ''err'', KError err]]"
    and l: "l' = s_logger s [KString ''err'', KError err] l"
    by (simp_all add: c2_def c1_def h0_def)
  show "res = (None, None, Some err)" by (rule r)
  show "l' = s_logger s [KString ''err'', KError err] l" by (rule l)
  show "calls_of LogKind tr = [LogCall [KString ''err'', KError err]]"
    by (simp add: t calls_of_threaded calls_of_Cons)
next
  fix request response paramsResp
  assume d: "s_dec s c1 params = Inr request" and e: "s_e s c1 request = Inr response"
    and n: "s_enc s c2 response = Inr paramsResp"
  note eq = ServeJSONRPC_succeeds [where s=s and hfc=hfc and ctx=ctx and params=params and l=l, 
      OF d [unfolded c1_def h0_def] e [unfolded c1_def h0_def] n [unfolded c2_def c1_def h0_def]]
  from run eq have t: "tr = threaded_calls BeforeStage (s_before s) ctx h0 @
              [DecCall c1 params, EndpointCall c1 request] @
              threaded_calls AfterStage (s_after s) c1 [] @ [EncCall c2 response]"
    and l: "l' = l"
    by (simp_all add: c2_def c1_def h0_def)
  show "l' = l" by (rule l)
  show "count_calls LogKind tr = 0" by (simp add: t)
next
  show "s_logger (NewService e dec enc []) keyvals l0 = l0"
    by (simp add: NewService_Nil NewNopLogger_def)
qed

text \<open>The four services of the examples, each with two before-hooks, one after-hook
  and the mock logger: decode fails, the endpoint fails, encode fails, all succeed.\<close>

theorem ServeJSONRPC_short_circuits_witness:
  "(s_dec badDecodeService (WithValue ''one'' 1 background) ''[3, 2]'' = Inl (errors_New ''oof'')
    \<and> fst (ServeJSONRPC fst badDecodeService background ''[3, 2]'' (False, [])) =
        (None, None, Some (errors_New ''oof''))
    \<and> count_calls EndpointKind (fst (snd (ServeJSONRPC fst badDecodeService background ''[3, 2]'' (False, [])))) = 0
    \<and> snd (snd (ServeJSONRPC fst badDecodeService background ''[3, 2]'' (False, []))) =
        (True, [[KString ''err'', KError (errors_New ''oof'')]]))
   \<and> (s_e badEndpointService (WithValue ''one'' 1 background) () = Inl (errors_New ''oof'')
    \<and> fst (ServeJSONRPC fst badEndpointService background ''[3, 2]'' (False, [])) =
        (None, None, Some (errors_New ''oof''))
    \<and> count_calls (HookKind AfterStage) (fst (snd (ServeJSONRPC fst badEndpointService background ''[3, 2]'' (False, [])))) = 0
    \<and> count_calls EncKind (fst (snd (ServeJSONRPC fst badEndpointService background ''[3, 2]'' (False, [])))) = 0
    \<and> snd (snd (ServeJSONRPC fst badEndpointService background ''[3, 2]'' (False, []))) =
        (True, [[KString ''err'', KError (errors_New ''oof'')]]))
   \<and> (s_enc badEncodeService (WithValue ''one'' 1 background) () = Inl (errors_New ''oof'')
    \<and> fst (ServeJSONRPC fst badEncodeService background ''[3, 2]'' (False, [])) =
        (None, None, Some (errors_New ''oof''))
    \<and> snd (snd (ServeJSONRPC fst badEncodeService background ''[3, 2]'' (False, []))) =
        (True, [[KString ''err'', KError (errors_New ''oof'')]]))
   \<and> (s_enc addService (WithValue ''one'' 1 background) () = Inr ''[]''
    \<and> count_calls LogKind (fst (snd (ServeJSONRPC fst addService background ''[3, 2]'' (False, [])))) = 0
    \<and> snd (snd (ServeJSONRPC fst addService background ''[3, 2]'' (False, []))) = (False, []))"
proof -
  note a = ServeJSONRPC_short_circuits [where hfc = fst and s = badDecodeService
      and ctx = background and params = "''[3, 2]''" and l = "(False, [])", OF triple_collapse]
  note b = ServeJSONRPC_short_circuits [where hfc = fst and s = badEndpointService
      and ctx = background and params = "''[3, 2]''" and l = "(False, [])", OF triple_collapse]
  note c = ServeJSONRPC_short_circuits [where hfc = fst and s = badEncodeService
      and ctx = background and params = "''[3, 2]''" and l = "(False, [])", OF triple_collapse]
  note d = ServeJSONRPC_short_circuits [where hfc = fst and s = addService
      and ctx = background and params = "''[3, 2]''" and l = "(False, [])", OF triple_collapse]
  show ?thesis
    using a b c d
    by (simp add: ServeJSONRPC_def fixture_defs)
qed

text \<open>
  C6. The before-hook calls of a request are, in order, the calls \<open>threaded_calls\<close>
  describes for the registered before-hooks, started on the request's context and the
  inbound header set; when decode and the endpoint succeed, the after-hook calls are
  those it describes for the registered after-hooks, started on the context \<open>c1\<close> the
  before-hooks left and an empty header set. \<open>threaded_calls\<close> has one call per hook, the
  first on the starting context, and the call at position \<open>i + 1\<close> is on the context
  and header set that the hook at position \<open>i\<close> returned. Each \<open>ServiceBefore\<close>
  (\<open>ServiceAfter\<close>) option appends its hooks to those registered by the options before
  it, so several options register the concatenation of their hook lists.
\<close>

theorem hooks_run_in_registration_order:
  fixes s :: "('c, 'q, 'r, 'l) Service" and hfc :: "'c \<Rightarrow> Header option" and ctx :: 'c
    and params :: string and l :: 'l
  defines "h0 \<equiv> case hfc ctx of Some h \<Rightarrow> h | None \<Rightarrow> []"
  defines "c1 \<equiv> fst (hook_state (s_before s) (ctx, h0) (length (s_before s)))"
  defines "tr \<equiv> fst (snd (ServeJSONRPC hfc s ctx params l))"
  shows "calls_of (HookKind BeforeStage) tr = threaded_calls BeforeStage (s_before s) ctx h0
       \<and> (\<forall>request response. s_dec s c1 params = Inr request \<longrightarrow> s_e s c1 request = Inr response \<longrightarrow>
            calls_of (HookKind AfterStage) tr = threaded_calls AfterStage (s_after s) c1 [])
       \<and> length (threaded_calls st fs c h :: ('c, 'q, 'r) event list) = length fs
       \<and> (fs \<noteq> [] \<longrightarrow> hd (threaded_calls st fs c h :: ('c, 'q, 'r) event list) = HookCall st 0 c h)
       \<and> (\<forall>i. Suc i < length fs \<longrightarrow>
            (\<exists>c' h'. (threaded_calls st fs c h :: ('c, 'q, 'r) event list) ! i = HookCall st i c' h' \<and>
               threaded_calls st fs c h ! Suc i =
                 HookCall st (Suc i) (fst ((fs ! i) c' h')) (snd ((fs ! i) c' h'))))
       \<and> s_before (NewService e dec enc (opts @ [ServiceBefore hooks])) =
            s_before (NewService e dec enc opts) @ hooks
       \<and> s_after (NewService e dec enc (opts @ [ServiceAfter hooks])) =
            s_after (NewService e dec enc opts) @ hooks
       \<and> s_before (NewService e dec enc (map ServiceBefore bss)) = concat bss
       \<and> s_after (NewService e dec enc (map ServiceAfter bss)) = concat bss"
proof (intro conjI allI impI)
  show "calls_of (HookKind BeforeStage) tr = threaded_calls BeforeStage (s_before s) ctx h0"
    unfolding tr_def h0_def by (rule ServeJSONRPC_before_calls)
next
  fix request response
  assume "s_dec s c1 params = Inr request" and "s_e s c1 request = Inr response"
  then show "calls_of (HookKind AfterStage) tr = threaded_calls AfterStage (s_after s) c1 []"
    unfolding tr_def c1_def h0_def by (rule ServeJSONRPC_after_calls)
next
  show "length (threaded_calls st fs c h :: ('c, 'q, 'r) event list) = length fs"
    by simp
next
  assume "fs \<noteq> []"
  then show "hd (threaded_calls st fs c h :: ('c, 'q, 'r) event list) = HookCall st 0 c h"
    by (rule threaded_calls_first)
next
  fix i
  assume "Suc i < length fs"
  then show "\<exists>c' h'. (threaded_calls st fs c h :: ('c, 'q, 'r) event list) ! i = HookCall st i c' h' \<and>
               threaded_calls st fs c h ! Suc i =
                 HookCall st (Suc i) (fst ((fs ! i) c' h')) (snd ((fs ! i) c' h'))"
    by (rule threaded_calls_step)
next
  show "s_before (NewService e dec enc (opts @ [ServiceBefore hooks])) =
            s_before (NewService e dec enc opts) @ hooks"
    by (rule NewService_before_snoc)
next
  show "s_after (NewService e dec enc (opts @ [ServiceAfter hooks])) =
            s_after (NewService e dec enc opts) @ hooks"
    by (rule NewService_after_snoc)
next
  show "s_before (NewService e dec enc (map ServiceBefore bss)) = concat bss"
    by (rule NewService_before_concat)
next
  show "s_after (NewService e dec enc (map ServiceAfter bss)) = concat bss"
    by (rule NewService_after_concat)
qed

text \<open>The service of \<open>TestMultipleServerBefore\<close>: the second before-hook and the
  after-hook are called on a context that holds the value stored by the first.\<close>

theorem hooks_run_in_registration_order_witness:
  "s_dec addService (WithValue ''one'' 1 background) ''[3, 2]'' = Inr ()
   \<and> s_e addService (WithValue ''one'' 1 background) () = Inr ()
   \<and> calls_of (HookKind BeforeStage) (fst (snd (ServeJSONRPC fst addService background ''[3, 2]'' (False, [])))) =
       [HookCall BeforeStage 0 background [], HookCall BeforeStage 1 (WithValue ''one'' 1 background) []]
   \<and> calls_of (HookKind AfterStage) (fst (snd (ServeJSONRPC fst addService background ''[3, 2]'' (False, [])))) =
       [HookCall AfterStage 0 (WithValue ''one'' 1 background) []]
   \<and> [setOne, readOne] \<noteq> []
   \<and> Suc 0 < length [setOne, readOne]
   \<and> (threaded_calls BeforeStage [setOne, readOne] background [] :: (tctx, unit, unit) event list) ! Suc 0 =
       HookCall BeforeStage (Suc 0) (WithValue ''one'' 1 background) []
   \<and> s_before addService = [setOne, readOne]
   \<and> s_after addService = [setTrace]"
proof -
  note a = hooks_run_in_registration_order [where s = addService and hfc = fst
      and ctx = background and params = "''[3, 2]''" and l = "(False, [])"
      and st = BeforeStage and fs = "[setOne, readOne]" and c = background and h = "[]"
      and bss = "[[setOne], [readOne]]"]
  have b: "s_before addService = [setOne, readOne]" "s_after addService = [setTrace]"
    by (simp_all add: addService_def hooked_def NewService_def ServiceBefore_def ServiceAfter_def
        ServiceErrorLogger_def)
  have c: "(threaded_calls BeforeStage [setOne, readOne] background [] :: (tctx, unit, unit) event list) ! Suc 0 =
       HookCall BeforeStage (Suc 0) (WithValue ''one'' 1 background) []"
    by (simp add: threaded_calls_def setOne_def upt_conv_Cons del: upt_Suc)
  show ?thesis
    using a b c
    by (simp add: ServeJSONRPC_def calls_of_def fixture_defs)
qed

text \<open>
  C8. When decode, the endpoint and encode succeed, \<open>ServeJSONRPC\<close> returns the encoded
  params, the header set as the after-hooks left it, and no error. The after-hooks are
  run on a header set that starts empty (with no after-hook the empty set is returned),
  and the before-hooks on the header set the context carries, or on an empty one when
  it carries none.
\<close>

theorem ServeJSONRPC_success_result:
  fixes s :: "('c, 'q, 'r, 'l) Service" and hfc :: "'c \<Rightarrow> Header option" and ctx :: 'c
    and params :: string and l :: 'l
  defines "h0 \<equiv> case hfc ctx of Some h \<Rightarrow> h | None \<Rightarrow> []"
  defines "c1 \<equiv> fst (hook_state (s_before s) (ctx, h0) (length (s_before s)))"
  defines "c2 \<equiv> fst (hook_state (s_after s) (c1, []) (length (s_after s)))"
  defines "tr \<equiv> fst (snd (ServeJSONRPC hfc s ctx params l))"
  assumes "s_dec s c1 params = Inr request" and "s_e s c1 request = Inr response"
    and "s_enc s c2 response = Inr paramsResp"
  shows "fst (ServeJSONRPC hfc s ctx params l) =
           (Some paramsResp, Some (snd (hook_state (s_after s) (c1, []) (length (s_after s)))), None)
       \<and> calls_of (HookKind AfterStage) tr = threaded_calls AfterStage (s_after s) c1 []
       \<and> (s_after s \<noteq> [] \<longrightarrow> hd (calls_of (HookKind AfterStage) tr) = HookCall AfterStage 0 c1 [])
       \<and> (s_after s = [] \<longrightarrow> fst (ServeJSONRPC hfc s ctx params l) = (Some paramsResp, Some [], None))
       \<and> calls_of (HookKind BeforeStage) tr = threaded_calls BeforeStage (s_before s) ctx h0
       \<and> (s_before s \<noteq> [] \<longrightarrow> hd (calls_of (HookKind BeforeStage) tr) = HookCall BeforeStage 0 ctx h0)"
proof -
  have res: "fst (ServeJSONRPC hfc s ctx params l) =
           (Some paramsResp, Some (snd (hook_state (s_after s) (c1, []) (length (s_after s)))), None)"
    using assms(5-7) unfolding c2_def c1_def h0_def
    by (simp add: ServeJSONRPC_succeeds)
  have aft: "calls_of (HookKind AfterStage) tr = threaded_calls AfterStage (s_after s) c1 []"
    using assms(5,6) unfolding tr_def c1_def h0_def by (rule ServeJSONRPC_after_calls)
  have bef: "calls_of (HookKind BeforeStage) tr = threaded_calls BeforeStage (s_before s) ctx h0"
    unfolding tr_def h0_def by (rule ServeJSONRPC_before_calls)
  show ?thesis
  proof (intro conjI allI impI)
    show "fst (ServeJSONRPC hfc s ctx params l) =
           (Some paramsResp, Some (snd (hook_state (s_after s) (c1, []) (length (s_after s)))), None)"
      by (rule res)
    show "calls_of (HookKind AfterStage) tr = threaded_calls AfterStage (s_after s) c1 []"
      by (rule aft)
    show "calls_of (HookKind BeforeStage) tr = threaded_calls BeforeStage (s_before s) ctx h0"
      by (rule bef)
  next
    assume "s_after s \<noteq> []"
    then show "hd (calls_of (HookKind AfterStage) tr) = HookCall AfterStage 0 c1 []"
      by (simp add: aft threaded_calls_first)
  next
    assume "s_after s = []"
    then show "fst (ServeJSONRPC hfc s ctx params l) = (Some paramsResp, Some [], None)"
      by (simp add: res)
  next
    assume "s_before s \<noteq> []"
    then show "hd (calls_of (HookKind BeforeStage) tr) = HookCall BeforeStage 0 ctx h0"
      by (simp add: bef threaded_calls_first)
  qed
qed

text \<open>A context that carries the header set \<open>{"Accept": ["*/*"]}\<close>, one that carries
  none, and a service without hooks.\<close>

theorem ServeJSONRPC_success_result_witness:
  "s_dec addService (Some [(''Accept'', [''*/*''])], [(''one'', 1)]) ''[3, 2]'' = Inr ()
   \<and> s_e addService (Some [(''Accept'', [''*/*''])], [(''one'', 1)]) () = Inr ()
   \<and> s_enc addService (Some [(''Accept'', [''*/*''])], [(''one'', 1)]) () = Inr ''[]''
   \<and> s_after addService \<noteq> [] \<and> s_before addService \<noteq> []
   \<and> fst (ServeJSONRPC fst addService (Some [(''Accept'', [''*/*''])], []) ''[3, 2]'' (False, [])) =
       (Some ''[]'', Some [(''X-Trace'', [''on''])], None)
   \<and> hd (calls_of (HookKind AfterStage)
         (fst (snd (ServeJSONRPC fst addService (Some [(''Accept'', [''*/*''])], []) ''[3, 2]'' (False, []))))) =
       HookCall AfterStage 0 (Some [(''Accept'', [''*/*''])], [(''one'', 1)]) []
   \<and> hd (calls_of (HookKind BeforeStage)
         (fst (snd (ServeJSONRPC fst addService (Some [(''Accept'', [''*/*''])], []) ''[3, 2]'' (False, []))))) =
       HookCall BeforeStage 0 (Some [(''Accept'', [''*/*''])], []) [(''Accept'', [''*/*''])]
   \<and> hd (calls_of (HookKind BeforeStage)
         (fst (snd (ServeJSONRPC fst addService background ''[3, 2]'' (False, []))))) =
       HookCall BeforeStage 0 background []
   \<and> s_after plainService = []
   \<and> fst (ServeJSONRPC fst plainService background ''[3, 2]'' (False, [])) = (Some ''[]'', Some [], None)"
proof -
  note a = ServeJSONRPC_success_result [where s = addService and hfc = fst
      and ctx = "(Some [(''Accept'', [''*/*''])], [])" and params = "''[3, 2]''" and l = "(False, [])"
      and request = "()" and response = "()" and paramsResp = "''[]''"]
  note b = ServeJSONRPC_success_result [where s = addService and hfc = fst
      and ctx = background and params = "''[3, 2]''" and l = "(False, [])"
      and request = "()" and response = "()" and paramsResp = "''[]''"]
  note c = ServeJSONRPC_success_result [where s = plainService and hfc = fst
      and ctx = background and params = "''[3, 2]''" and l = "(False, [])"
      and request = "()" and response = "()" and paramsResp = "''[]''"]
  show ?thesis
    using a b c
    by (simp add: ServeJSONRPC_def Let_def calls_of_def threaded_calls_def fixture_defs)
qed

section \<open>The paths of the dispatcher\<close>

text \<open>One equation per path of \<open>ServeHTTP\<close>: a verb other than POST, a body that does
  not decode, a method that is not registered, a handler that fails, a handler that
  succeeds.\<close>

lemma ServeHTTP_not_POST:
  "r_Method r \<noteq> ''POST'' \<Longrightarrow>
   ServeHTTP rt s w r l =
     (Write (PlainText (''405 must POST'' @ [CHR 0x0A]))
        (WriteHeader 405 (SetHeader (canonicalKey rt) ''Content-Type'' ''text/plain; charset=utf-8'' w)),
      [], l)"
  by (simp add: ServeHTTP_def MethodPost_def StatusMethodNotAllowed_def)

lemma ServeHTTP_undecodable:
  "r_Method r = ''POST'' \<Longrightarrow> jsonDecode rt (r_Body r) = None \<Longrightarrow>
   ServeHTTP rt s w r l =
     (errorEncoder s (HeaderNewContext rt (r_Context r) (r_Header r)) invalidRequestError w,
      [DecodeEnvelope (r_Body r)], l)"
  by (simp add: ServeHTTP_def MethodPost_def)

lemma ServeHTTP_method_not_found:
  "r_Method r = ''POST'' \<Longrightarrow> jsonDecode rt (r_Body r) = Some req \<Longrightarrow> sm s (req_Method req) = None \<Longrightarrow>
   ServeHTTP rt s w r l =
     (errorEncoder s (HeaderNewContext rt (r_Context r) (r_Header r))
        (methodNotFoundError (''Method '' @ req_Method req @ '' was not found.'')) w,
      [DecodeEnvelope (r_Body r), Lookup (req_Method req)], l)"
  by (simp add: ServeHTTP_def MethodPost_def)

lemma ServeHTTP_handler_error:
  "r_Method r = ''POST'' \<Longrightarrow> jsonDecode rt (r_Body r) = Some req \<Longrightarrow>
   sm s (req_Method req) = Some srv \<Longrightarrow>
   srv (HeaderNewContext rt (r_Context r) (r_Header r)) (req_Params req) l = ((resp, hdrs, Some err), tr, l') \<Longrightarrow>
   ServeHTTP rt s w r l =
     (errorEncoder s (HeaderNewContext rt (r_Context r) (r_Header r)) err w,
      [DecodeEnvelope (r_Body r), Lookup (req_Method req)] @ tr, l')"
  by (simp add: ServeHTTP_def MethodPost_def)

lemma ServeHTTP_handler_ok:
  "r_Method r = ''POST'' \<Longrightarrow> jsonDecode rt (r_Body r) = Some req \<Longrightarrow>
   sm s (req_Method req) = Some srv \<Longrightarrow>
   srv (HeaderNewContext rt (r_Context r) (r_Header r)) (req_Params req) l = ((resp, hdrs, None), tr, l') \<Longrightarrow>
   ServeHTTP rt s w r l =
     (EncodeJSONResponse (canonicalKey rt) (jsonContentType rt)
        (HeaderNewContext rt (r_Context r) (r_Header r)) w
        \<lparr>RespHeaders = hdrs, JSONRPC = Version, Result = resp, Error = None, ID = None\<rparr>,
      [DecodeEnvelope (r_Body r), Lookup (req_Method req)] @ tr, l')"
  by (simp add: ServeHTTP_def MethodPost_def)

lemma EncodeJSONResponse_body [simp]:
  "w_body (EncodeJSONResponse canon ct ctx w res) = w_body w @ [JSONEnvelope res]"
  by (simp add: EncodeJSONResponse_def)

lemma NewServer_default:
  "NewServer rt smap [] = \<lparr>sm = smap, errorEncoder = DefaultErrorEncoder (canonicalKey rt) (ContentType rt)\<rparr>"
  by (simp add: NewServer_def)

lemmas server_defs = serverOf_def NewServer_def testRuntime_def testDecode_def post_def
  getRequest_def addBody_def missingBody_def newWriter_def

lemma ServeJSONRPC_result_shape:
  "(\<exists>err. fst (ServeJSONRPC hfc s ctx params l) = (None, None, Some err)) \<or>
   (\<exists>p h. fst (ServeJSONRPC hfc s ctx params l) = (Some p, Some h, None))"
  by (simp add: ServeJSONRPC_def Let_def split: prod.splits sum.splits)

lemma written_append: "w_body w' = w_body w @ xs \<Longrightarrow> drop (length (w_body w)) (w_body w') = xs"
  by simp

lemma DefaultErrorEncoder_written:
  "drop (length (w_body w)) (w_body (DefaultErrorEncoder canon ct ctx err w)) =
     [JSONEnvelope \<lparr>RespHeaders = None, JSONRPC = Version, Result = None,
        Error = Some \<lparr>Code = (case err_ErrorCoder err of None \<Rightarrow> - 32603 | Some c \<Rightarrow> c),
                      Message = err_Error err, Data = None\<rparr>,
        ID = None\<rparr>]"
  by (simp add: DefaultErrorEncoder_body)

lemma ServeHTTP_service_written:
  fixes s :: "('c, 'q, 'r, string, 'l) Server"
  assumes post: "r_Method r = ''POST''" and dec: "jsonDecode rt (r_Body r) = Some req"
    and reg: "sm s (req_Method req) = Some (ServeJSONRPC hfc svc)"
    and ee: "errorEncoder s = DefaultErrorEncoder canon ct"
  shows "\<exists>res. drop (length (w_body w)) (w_body (fst (ServeHTTP rt s w r l))) = [JSONEnvelope res] \<and>
           (case snd (snd (fst (ServeJSONRPC hfc svc (HeaderNewContext rt (r_Context r) (r_Header r))
                                  (req_Params req) l))) of
              None \<Rightarrow> Result res \<noteq> None \<and> Error res = None
            | Some err \<Rightarrow> Result res = None \<and> Error res \<noteq> None)"
proof -
  let ?ctx = "HeaderNewContext rt (r_Context r) (r_Header r)"
  let ?run = "ServeJSONRPC hfc svc ?ctx (req_Params req) l"
  from ServeJSONRPC_result_shape [of hfc svc ?ctx "req_Params req" l]
  show ?thesis
  proof (elim disjE exE)
    fix err
    assume f: "fst ?run = (None, None, Some err)"
    then have run: "?run = ((None, None, Some err), fst (snd ?run), snd (snd ?run))"
      by (metis prod.collapse)
    show ?thesis
      using ServeHTTP_handler_error [OF post dec reg run, of w]
      by (simp add: f ee DefaultErrorEncoder_written)
  next
    fix p h
    assume f: "fst ?run = (Some p, Some h, None)"
    then have run: "?run = ((Some p, Some h, None), fst (snd ?run), snd (snd ?run))"
      by (metis prod.collapse)
    show ?thesis
      using ServeHTTP_handler_ok [OF post dec reg run, of w]
      by (simp add: f)
  qed
qed

lemma ServeHTTP_early_error_written:
  fixes s :: "('c, 'q, 'r, string, 'l) Server"
  assumes post: "r_Method r = ''POST''"
    and early: "jsonDecode rt (r_Body r) = None \<or>
                (\<exists>req. jsonDecode rt (r_Body r) = Some req \<and> sm s (req_Method req) = None)"
    and ee: "errorEncoder s = DefaultErrorEncoder canon ct"
  shows "\<exists>res. drop (length (w_body w)) (w_body (fst (ServeHTTP rt s w r l))) = [JSONEnvelope res] \<and>
           Result res = None \<and> Error res \<noteq> None"
  using early
proof (elim disjE exE conjE)
  assume "jsonDecode rt (r_Body r) = None"
  then show ?thesis
    by (simp add: ServeHTTP_undecodable [OF post] ee DefaultErrorEncoder_written)
next
  fix req
  assume "jsonDecode rt (r_Body r) = Some req" and "sm s (req_Method req) = None"
  then show ?thesis
    by (simp add: ServeHTTP_method_not_found [OF post] ee DefaultErrorEncoder_written)
qed

lemma serverOf_registry:
  "\<forall>m h. sm (serverOf svc) m = Some h \<longrightarrow> (\<exists>svc'. h = ServeJSONRPC fst svc')"
  by (auto simp add: serverOf_def NewServer_def split: if_splits)

lemma serverOf_errorEncoder:
  "errorEncoder (serverOf svc) = DefaultErrorEncoder (\<lambda>k. k) ''application/json; charset=utf-8''"
  by (simp add: serverOf_def NewServer_def testRuntime_def)

lemma DefaultErrorEncoder_Header_plain:
  "err_Headerer err = None \<Longrightarrow>
   w_Header (DefaultErrorEncoder canon ct ctx err w) = Header_Set canon (w_Header w) ''Content-Type'' ct"
  by (simp add: DefaultErrorEncoder_def Let_def SetHeader_def)

lemma ServeHTTP_undecodable_default:
  assumes "r_Method r = ''POST''" and "jsonDecode rt (r_Body r) = None"
    and "errorEncoder s = DefaultErrorEncoder canon ct"
  shows "w_body (fst (ServeHTTP rt s w r l)) =
           w_body w @
             [JSONEnvelope \<lparr>RespHeaders = None, JSONRPC = Version, Result = None,
                Error = Some \<lparr>Code = - 32603,
                              Message = ''The JSON sent is not a valid Request object.'',
                              Data = None\<rparr>,
                ID = None\<rparr>]"
  using assms
  by (simp add: ServeHTTP_undecodable DefaultErrorEncoder_body ErrorMessage_def errorMessage_def
      ParseError_def InvalidRequestError_def)

section \<open>Claims about the dispatcher\<close>

text \<open>
  C7. For every request whose verb is not POST, on a writer whose status has not been
  written yet: the status is 405, the body written is the plain text
  \<open>405 must POST\<close> with a newline and nothing else (no response envelope), the content
  type is plain text, and no call is recorded: the envelope is not decoded, the service
  map is not consulted, no handler runs.
\<close>

theorem ServeHTTP_rejects_other_verbs:
  assumes "r_Method r \<noteq> ''POST''" and "w_status w = None"
  shows "snd (ServeHTTP rt s w r l) = ([], l)
       \<and> w_status (fst (ServeHTTP rt s w r l)) = Some 405
       \<and> w_body (fst (ServeHTTP rt s w r l)) = w_body w @ [PlainText (''405 must POST'' @ [CHR 0x0A])]
       \<and> Header_Get (canonicalKey rt) (w_Header (fst (ServeHTTP rt s w r l))) ''Content-Type'' =
           ''text/plain; charset=utf-8''"
  using assms
  by (simp add: ServeHTTP_not_POST Header_Get_SetHeader)

theorem ServeHTTP_rejects_other_verbs_witness:
  "r_Method getRequest \<noteq> ''POST'' \<and> w_status newWriter = None
   \<and> snd (ServeHTTP testRuntime (serverOf addService) newWriter getRequest (False, [])) = ([], (False, []))
   \<and> w_status (fst (ServeHTTP testRuntime (serverOf addService) newWriter getRequest (False, []))) = Some 405
   \<and> w_body (fst (ServeHTTP testRuntime (serverOf addService) newWriter getRequest (False, []))) =
       [PlainText (''405 must POST'' @ [CHR 0x0A])]"
proof -
  have m: "r_Method getRequest \<noteq> ''POST''" by (simp add: getRequest_def)
  have f: "w_status newWriter = None" by (simp add: newWriter_def)
  show ?thesis
    using m f ServeHTTP_rejects_other_verbs [OF m f, of testRuntime "serverOf addService" "(False, [])"]
    by (simp add: newWriter_def)
qed

text \<open>
  C4. For every POST whose body decodes to a request naming a method that the service
  map does not hold, a server with the default error encoder writes status 200 and one
  response envelope whose error has the code -32601 and the message
  \<open>Method <name> was not found.\<close>, which holds the method name.
\<close>

theorem ServeHTTP_unknown_method:
  assumes "r_Method r = ''POST''" and "jsonDecode rt (r_Body r) = Some req"
    and "sm s (req_Method req) = None"
    and "errorEncoder s = DefaultErrorEncoder canon ct" and "w_status w = None"
  shows "w_status (fst (ServeHTTP rt s w r l)) = Some 200
       \<and> w_body (fst (ServeHTTP rt s w r l)) =
           w_body w @
             [JSONEnvelope \<lparr>RespHeaders = None, JSONRPC = Version, Result = None,
                Error = Some \<lparr>Code = - 32601,
                              Message = ''Method '' @ req_Method req @ '' was not found.'',
                              Data = None\<rparr>,
                ID = None\<rparr>]"
  using assms
  by (simp add: ServeHTTP_method_not_found DefaultErrorEncoder_status DefaultErrorEncoder_body
      MethodNotFoundError_def)

text \<open>\<open>TestServerUnregisteredMethod\<close>, with the method \<open>missing\<close>.\<close>

theorem ServeHTTP_unknown_method_witness:
  "r_Method (post missingBody) = ''POST''
   \<and> jsonDecode testRuntime (r_Body (post missingBody)) =
       Some \<lparr>req_JSONRPC = ''2.0'', req_Method = ''missing'', req_Params = ''[3, 2]'',
             req_ID = Some (IDNumber 1)\<rparr>
   \<and> sm (serverOf addService) ''missing'' = None
   \<and> errorEncoder (serverOf addService) =
       DefaultErrorEncoder (canonicalKey testRuntime) (ContentType testRuntime)
   \<and> w_status newWriter = None
   \<and> w_status (fst (ServeHTTP testRuntime (serverOf addService) newWriter (post missingBody) (False, []))) = Some 200
   \<and> w_body (fst (ServeHTTP testRuntime (serverOf addService) newWriter (post missingBody) (False, []))) =
       [JSONEnvelope \<lparr>RespHeaders = None, JSONRPC = ''2.0'', Result = None,
          Error = Some \<lparr>Code = - 32601, Message = ''Method missing was not found.'', Data = None\<rparr>,
          ID = None\<rparr>]"
proof -
  have p: "r_Method (post missingBody) = ''POST''"
    by (simp add: post_def)
  have d: "jsonDecode testRuntime (r_Body (post missingBody)) =
       Some \<lparr>req_JSONRPC = ''2.0'', req_Method = ''missing'', req_Params = ''[3, 2]'',
             req_ID = Some (IDNumber 1)\<rparr>"
    by (simp add: server_defs)
  have n: "sm (serverOf addService)
             (req_Method \<lparr>req_JSONRPC = ''2.0'', req_Method = ''missing'', req_Params = ''[3, 2]'',
                          req_ID = Some (IDNumber 1)\<rparr>) = None"
    by (simp add: serverOf_def NewServer_def)
  have e: "errorEncoder (serverOf addService) =
       DefaultErrorEncoder (canonicalKey testRuntime) (ContentType testRuntime)"
    by (simp add: serverOf_def NewServer_def)
  have f: "w_status newWriter = None"
    by (simp add: newWriter_def)
  show ?thesis
    using p d n e f ServeHTTP_unknown_method [OF p d n e f, of "(False, [])"]
    by (simp add: Version_def newWriter_def)
qed

text \<open>
  C9. For every POST that decodes, finds its handler and whose handler returns no error,
  the envelope written has the handler's result and headers, no error, and an \<open>ID\<close>
  field left at its zero value: nothing of the request's id reaches the response,
  whatever that id is.
\<close>

theorem success_envelope_has_no_id:
  assumes "r_Method r = ''POST''" and "jsonDecode rt (r_Body r) = Some req"
    and "sm s (req_Method req) = Some srv"
    and "srv (HeaderNewContext rt (r_Context r) (r_Header r)) (req_Params req) l =
           ((resp, hdrs, None), tr, l')"
  shows "w_body (fst (ServeHTTP rt s w r l)) =
           w_body w @
             [JSONEnvelope \<lparr>RespHeaders = hdrs, JSONRPC = Version, Result = resp,
                             Error = None, ID = None\<rparr>]"
  using assms by (simp add: ServeHTTP_handler_ok)

text \<open>\<open>TestServerHappyPath\<close>: the request has the id 1, the response has none.\<close>

theorem success_envelope_has_no_id_witness:
  "r_Method (post addBody) = ''POST''
   \<and> jsonDecode testRuntime (r_Body (post addBody)) =
       Some \<lparr>req_JSONRPC = ''2.0'', req_Method = ''add'', req_Params = ''[3, 2]'',
             req_ID = Some (IDNumber 1)\<rparr>
   \<and> sm (serverOf addService) ''add'' = Some (ServeJSONRPC fst addService)
   \<and> fst (ServeJSONRPC fst addService (Some [(''Content-Type'', [''application/json''])], []) ''[3, 2]'' (False, [])) =
       (Some ''[]'', Some [(''X-Trace'', [''on''])], None)
   \<and> w_body (fst (ServeHTTP testRuntime (serverOf addService) newWriter (post addBody) (False, []))) =
       [JSONEnvelope \<lparr>RespHeaders = Some [(''X-Trace'', [''on''])], JSONRPC = ''2.0'',
          Result = Some ''[]'', Error = None, ID = None\<rparr>]"
proof -
  let ?req = "\<lparr>req_JSONRPC = ''2.0'', req_Method = ''add'', req_Params = ''[3, 2]'',
             req_ID = Some (IDNumber 1)\<rparr>"
  let ?run = "ServeJSONRPC fst addService (Some [(''Content-Type'', [''application/json''])], []) ''[3, 2]'' (False, [])"
  have p: "r_Method (post addBody) = ''POST''"
    by (simp add: post_def)
  have d: "jsonDecode testRuntime (r_Body (post addBody)) = Some ?req"
    by (simp add: server_defs)
  have n: "sm (serverOf addService) (req_Method ?req) = Some (ServeJSONRPC fst addService)"
    by (simp add: serverOf_def NewServer_def)
  have h: "ServeJSONRPC fst addService
             (HeaderNewContext testRuntime (r_Context (post addBody)) (r_Header (post addBody)))
             (req_Params ?req) (False, []) =
           ((Some ''[]'', Some [(''X-Trace'', [''on''])], None), fst (snd ?run), snd (snd ?run))"
    by (simp add: ServeJSONRPC_def Let_def fixture_defs testRuntime_def post_def)
  have f: "fst ?run = (Some ''[]'', Some [(''X-Trace'', [''on''])], None)"
    by (simp add: ServeJSONRPC_def Let_def fixture_defs)
  show ?thesis
    using p d n f success_envelope_has_no_id [OF p d n h, of newWriter]
    by (simp add: Version_def newWriter_def)
qed

text \<open>
  C2. For a server with the default error encoder whose service map holds method
  services, every response envelope a request writes has exactly one of \<open>Result\<close>
  and \<open>Error\<close> set (\<open>written\<close> is what the request adds to the body). When the
  request reaches a service, one envelope is written: with a result and no error when
  the pipeline returns no error, with an error and no result when it returns one. When
  the body does not decode or the method is not registered, one envelope is written,
  with an error and no result. Presence is that of the struct field: a field is
  present when it is not \<open>nil\<close>.
\<close>

theorem envelope_has_exactly_one_of_result_and_error:
  fixes s :: "('c, 'q, 'r, string, 'l) Server" and rt :: "'c runtime" and r :: "'c http_Request"
    and w :: "string ResponseWriter" and l :: 'l and hfc :: "'c \<Rightarrow> Header option"
  defines "ctx0 \<equiv> HeaderNewContext rt (r_Context r) (r_Header r)"
  defines "written \<equiv> drop (length (w_body w)) (w_body (fst (ServeHTTP rt s w r l)))"
  assumes ee: "errorEncoder s = DefaultErrorEncoder canon ct"
    and reg: "\<forall>m h. sm s m = Some h \<longrightarrow> (\<exists>svc. h = ServeJSONRPC hfc svc)"
  shows "(\<forall>res. JSONEnvelope res \<in> set written \<longrightarrow>
            (Result res \<noteq> None \<and> Error res = None) \<or> (Result res = None \<and> Error res \<noteq> None))
       \<and> (\<forall>req svc. r_Method r = ''POST'' \<longrightarrow> jsonDecode rt (r_Body r) = Some req \<longrightarrow>
            sm s (req_Method req) = Some (ServeJSONRPC hfc svc) \<longrightarrow>
            (\<exists>res. written = [JSONEnvelope res] \<and>
               (case snd (snd (fst (ServeJSONRPC hfc svc ctx0 (req_Params req) l))) of
                  None \<Rightarrow> Result res \<noteq> None \<and> Error res = None
                | Some err \<Rightarrow> Result res = None \<and> Error res \<noteq> None)))
       \<and> (r_Method r = ''POST'' \<longrightarrow>
            jsonDecode rt (r_Body r) = None \<or>
              (\<exists>req. jsonDecode rt (r_Body r) = Some req \<and> sm s (req_Method req) = None) \<longrightarrow>
            (\<exists>res. written = [JSONEnvelope res] \<and> Result res = None \<and> Error res \<noteq> None))"
proof (intro conjI allI impI)
  fix req svc
  assume "r_Method r = ''POST''" and "jsonDecode rt (r_Body r) = Some req"
    and "sm s (req_Method req) = Some (ServeJSONRPC hfc svc)"
  then show "\<exists>res. written = [JSONEnvelope res] \<and>
               (case snd (snd (fst (ServeJSONRPC hfc svc ctx0 (req_Params req) l))) of
                  None \<Rightarrow> Result res \<noteq> None \<and> Error res = None
                | Some err \<Rightarrow> Result res = None \<and> Error res \<noteq> None)"
    unfolding written_def ctx0_def using ee by (rule ServeHTTP_service_written)
next
  assume "r_Method r = ''POST''"
    and "jsonDecode rt (r_Body r) = None \<or>
           (\<exists>req. jsonDecode rt (r_Body r) = Some req \<and> sm s (req_Method req) = None)"
  then show "\<exists>res. written = [JSONEnvelope res] \<and> Result res = None \<and> Error res \<noteq> None"
    unfolding written_def using ee by (rule ServeHTTP_early_error_written)
next
  fix res
  assume mem: "JSONEnvelope res \<in> set written"
  show "(Result res \<noteq> None \<and> Error res = None) \<or> (Result res = None \<and> Error res \<noteq> None)"
  proof (cases "r_Method r = ''POST''")
    case False
    then have "written = [PlainText (''405 must POST'' @ [CHR 0x0A])]"
      by (simp add: written_def ServeHTTP_not_POST)
    with mem show ?thesis by simp
  next
    case post: True
    show ?thesis
    proof (cases "jsonDecode rt (r_Body r)")
      case None
      then have "\<exists>res'. written = [JSONEnvelope res'] \<and> Result res' = None \<and> Error res' \<noteq> None"
        unfolding written_def using post ee ServeHTTP_early_error_written [of r rt s canon ct w l]
        by blast
      with mem show ?thesis by auto
    next
      case (Some req)
      show ?thesis
      proof (cases "sm s (req_Method req)")
        case None
        with Some have "\<exists>res'. written = [JSONEnvelope res'] \<and> Result res' = None \<and> Error res' \<noteq> None"
          unfolding written_def using post ee ServeHTTP_early_error_written [of r rt s canon ct w l]
          by blast
        with mem show ?thesis by auto
      next
        case (Some h)
        with reg obtain svc where h: "h = ServeJSONRPC hfc svc" by blast
        from ServeHTTP_service_written [OF post \<open>jsonDecode rt (r_Body r) = Some req\<close>
            Some [unfolded h] ee, of w l]
        obtain res' where w: "written = [JSONEnvelope res']"
          and c: "case snd (snd (fst (ServeJSONRPC hfc svc ctx0 (req_Params req) l))) of
                    None \<Rightarrow> Result res' \<noteq> None \<and> Error res' = None
                  | Some err \<Rightarrow> Result res' = None \<and> Error res' \<noteq> None"
          unfolding written_def ctx0_def by blast
        from mem w have "res = res'" by simp
        with c show ?thesis by (auto split: option.splits)
      qed
    qed
  qed
qed

text \<open>\<open>TestServerHappyPath\<close>, \<open>TestServerBadDecode\<close> and
  \<open>TestServerUnregisteredMethod\<close>.\<close>

theorem envelope_has_exactly_one_of_result_and_error_witness:
  "w_body (fst (ServeHTTP testRuntime (serverOf addService) newWriter (post addBody) (False, []))) =
     [JSONEnvelope \<lparr>RespHeaders = Some [(''X-Trace'', [''on''])], JSONRPC = ''2.0'',
        Result = Some ''[]'', Error = None, ID = None\<rparr>]
   \<and> w_body (fst (ServeHTTP testRuntime (serverOf badDecodeService) newWriter (post addBody) (False, []))) =
     [JSONEnvelope \<lparr>RespHeaders = None, JSONRPC = ''2.0'', Result = None,
        Error = Some \<lparr>Code = - 32603, Message = ''oof'', Data = None\<rparr>, ID = None\<rparr>]
   \<and> w_body (fst (ServeHTTP testRuntime (serverOf addService) newWriter (post missingBody) (False, []))) =
     [JSONEnvelope \<lparr>RespHeaders = None, JSONRPC = ''2.0'', Result = None,
        Error = Some \<lparr>Code = - 32601, Message = ''Method missing was not found.'', Data = None\<rparr>,
        ID = None\<rparr>]
   \<and> (\<exists>res. w_body (fst (ServeHTTP testRuntime (serverOf addService) newWriter (post addBody) (False, []))) =
          [JSONEnvelope res] \<and> Result res \<noteq> None \<and> Error res = None)
   \<and> (\<exists>res. w_body (fst (ServeHTTP testRuntime (serverOf badDecodeService) newWriter (post addBody) (False, []))) =
          [JSONEnvelope res] \<and> Result res = None \<and> Error res \<noteq> None)"
proof -
  note a = envelope_has_exactly_one_of_result_and_error [OF serverOf_errorEncoder [of addService]
      serverOf_registry [of addService], where w = newWriter and rt = testRuntime and r = "post addBody" and l = "(False, [])"]
  note b = envelope_has_exactly_one_of_result_and_error [OF serverOf_errorEncoder [of badDecodeService]
      serverOf_registry [of badDecodeService], where w = newWriter and rt = testRuntime and r = "post addBody" and l = "(False, [])"]
  note c = envelope_has_exactly_one_of_result_and_error [OF serverOf_errorEncoder [of addService]
      serverOf_registry [of addService], where w = newWriter and rt = testRuntime and r = "post missingBody" and l = "(False, [])"]
  have 1: "w_body (fst (ServeHTTP testRuntime (serverOf addService) newWriter (post addBody) (False, []))) =
     [JSONEnvelope \<lparr>RespHeaders = Some [(''X-Trace'', [''on''])], JSONRPC = ''2.0'',
        Result = Some ''[]'', Error = None, ID = None\<rparr>]"
    by (simp add: ServeHTTP_def ServeJSONRPC_def Let_def MethodPost_def Version_def
        fixture_defs server_defs)
  have 2: "w_body (fst (ServeHTTP testRuntime (serverOf badDecodeService) newWriter (post addBody) (False, []))) =
     [JSONEnvelope \<lparr>RespHeaders = None, JSONRPC = ''2.0'', Result = None,
        Error = Some \<lparr>Code = - 32603, Message = ''oof'', Data = None\<rparr>, ID = None\<rparr>]"
    by (simp add: ServeHTTP_def ServeJSONRPC_def Let_def MethodPost_def Version_def
        DefaultErrorEncoder_body fixture_defs server_defs)
  have 3: "w_body (fst (ServeHTTP testRuntime (serverOf addService) newWriter (post missingBody) (False, []))) =
     [JSONEnvelope \<lparr>RespHeaders = None, JSONRPC = ''2.0'', Result = None,
        Error = Some \<lparr>Code = - 32601, Message = ''Method missing was not found.'', Data = None\<rparr>,
        ID = None\<rparr>]"
    by (simp add: ServeHTTP_def Let_def MethodPost_def Version_def MethodNotFoundError_def
        DefaultErrorEncoder_body server_defs)
  from a b c show ?thesis
    by (simp add: 1 2 3)
qed

text \<open>
  C10. When decode, the endpoint or encode fails, \<open>ServeJSONRPC\<close> returns \<open>nil\<close> for
  the params and for the header set, with the error. When encode fails the after-hooks
  have run, on the header set that is then dropped. In the server, whatever a failing
  handler returns beside its error is not used: the response is what the error encoder
  writes for the request's context and the error, and with the default error encoder
  and an error that exposes no header set, the response headers are those of the writer
  with the content type set, so nothing an after-hook stored reaches the client.
\<close>

theorem failure_returns_nil_and_drops_headers:
  fixes s :: "('c, 'q, 'r, 'l) Service" and hfc :: "'c \<Rightarrow> Header option" and ctx :: 'c
    and params :: string and l :: 'l
    and srv :: "('c, 'q, 'r, 'v, 'l) Server" and rt :: "'c runtime" and r :: "'c http_Request"
  defines "h0 \<equiv> case hfc ctx of Some h \<Rightarrow> h | None \<Rightarrow> []"
  defines "c1 \<equiv> fst (hook_state (s_before s) (ctx, h0) (length (s_before s)))"
  defines "c2 \<equiv> fst (hook_state (s_after s) (c1, []) (length (s_after s)))"
  defines "ctx0 \<equiv> HeaderNewContext rt (r_Context r) (r_Header r)"
  shows "(\<forall>err. s_dec s c1 params = Inl err \<longrightarrow>
            fst (ServeJSONRPC hfc s ctx params l) = (None, None, Some err))
       \<and> (\<forall>request err. s_dec s c1 params = Inr request \<longrightarrow> s_e s c1 request = Inl err \<longrightarrow>
            fst (ServeJSONRPC hfc s ctx params l) = (None, None, Some err))
       \<and> (\<forall>request response err. s_dec s c1 params = Inr request \<longrightarrow>
            s_e s c1 request = Inr response \<longrightarrow> s_enc s c2 response = Inl err \<longrightarrow>
            fst (ServeJSONRPC hfc s ctx params l) = (None, None, Some err) \<and>
            calls_of (HookKind AfterStage) (fst (snd (ServeJSONRPC hfc s ctx params l))) =
              threaded_calls AfterStage (s_after s) c1 [])
       \<and> (\<forall>req h resp hdrs err tr l'. r_Method r = ''POST'' \<longrightarrow>
            jsonDecode rt (r_Body r) = Some req \<longrightarrow> sm srv (req_Method req) = Some h \<longrightarrow>
            h ctx0 (req_Params req) l = ((resp, hdrs, Some err), tr, l') \<longrightarrow>
            fst (ServeHTTP rt srv w r l) = errorEncoder srv ctx0 err w \<and>
            (errorEncoder srv = DefaultErrorEncoder canon ct \<longrightarrow> err_Headerer err = None \<longrightarrow>
               w_Header (fst (ServeHTTP rt srv w r l)) =
                 Header_Set canon (w_Header w) ''Content-Type'' ct))"
proof (intro conjI allI impI)
  fix err
  assume "s_dec s c1 params = Inl err"
  then show "fst (ServeJSONRPC hfc s ctx params l) = (None, None, Some err)"
    unfolding c1_def h0_def by (simp add: ServeJSONRPC_dec_fails)
next
  fix request err
  assume "s_dec s c1 params = Inr request" and "s_e s c1 request = Inl err"
  then show "fst (ServeJSONRPC hfc s ctx params l) = (None, None, Some err)"
    unfolding c1_def h0_def by (simp add: ServeJSONRPC_e_fails)
next
  fix request response err
  assume a: "s_dec s c1 params = Inr request" "s_e s c1 request = Inr response"
    "s_enc s c2 response = Inl err"
  from a show "fst (ServeJSONRPC hfc s ctx params l) = (None, None, Some err)"
    unfolding c2_def c1_def h0_def by (simp add: ServeJSONRPC_enc_fails)
  from a(1,2) show "calls_of (HookKind AfterStage) (fst (snd (ServeJSONRPC hfc s ctx params l))) =
              threaded_calls AfterStage (s_after s) c1 []"
    unfolding c1_def h0_def by (rule ServeJSONRPC_after_calls)
next
  fix req h resp hdrs err tr l'
  assume a: "r_Method r = ''POST''" "jsonDecode rt (r_Body r) = Some req"
    "sm srv (req_Method req) = Some h"
    "h ctx0 (req_Params req) l = ((resp, hdrs, Some err), tr, l')"
  from a show w: "fst (ServeHTTP rt srv w r l) = errorEncoder srv ctx0 err w"
    unfolding ctx0_def by (simp add: ServeHTTP_handler_error)
  assume "errorEncoder srv = DefaultErrorEncoder canon ct" and "err_Headerer err = None"
  then show "w_Header (fst (ServeHTTP rt srv w r l)) =
                 Header_Set canon (w_Header w) ''Content-Type'' ct"
    by (simp add: w DefaultErrorEncoder_Header_plain)
qed

text \<open>\<open>TestServerBadEncode\<close> with an after-hook that sets the header \<open>X-Trace\<close>: the
  hook runs and the response carries the content type only.\<close>

theorem failure_returns_nil_and_drops_headers_witness:
  "s_dec badEncodeService (WithValue ''one'' 1 (Some [(''Content-Type'', [''application/json''])], [])) ''[3, 2]'' = Inr ()
   \<and> s_e badEncodeService (WithValue ''one'' 1 (Some [(''Content-Type'', [''application/json''])], [])) () = Inr ()
   \<and> s_enc badEncodeService (WithValue ''one'' 1 (Some [(''Content-Type'', [''application/json''])], [])) () =
       Inl (errors_New ''oof'')
   \<and> setTrace (WithValue ''one'' 1 (Some [(''Content-Type'', [''application/json''])], [])) [] =
       (WithValue ''one'' 1 (Some [(''Content-Type'', [''application/json''])], []), [(''X-Trace'', [''on''])])
   \<and> fst (ServeJSONRPC fst badEncodeService (Some [(''Content-Type'', [''application/json''])], []) ''[3, 2]'' (False, [])) =
       (None, None, Some (errors_New ''oof''))
   \<and> calls_of (HookKind AfterStage)
        (fst (snd (ServeJSONRPC fst badEncodeService (Some [(''Content-Type'', [''application/json''])], []) ''[3, 2]'' (False, [])))) =
       [HookCall AfterStage 0 (WithValue ''one'' 1 (Some [(''Content-Type'', [''application/json''])], [])) []]
   \<and> w_Header (fst (ServeHTTP testRuntime (serverOf badEncodeService) newWriter (post addBody) (False, []))) =
       [(''Content-Type'', [''application/json; charset=utf-8''])]
   \<and> fst (ServeJSONRPC fst badDecodeService background ''[3, 2]'' (False, [])) =
       (None, None, Some (errors_New ''oof''))
   \<and> fst (ServeJSONRPC fst badEndpointService background ''[3, 2]'' (False, [])) =
       (None, None, Some (errors_New ''oof''))"
proof -
  let ?ctx = "(Some [(''Content-Type'', [''application/json''])], []) :: tctx"
  let ?run = "ServeJSONRPC fst badEncodeService ?ctx ''[3, 2]'' (False, [])"
  let ?req = "\<lparr>req_JSONRPC = ''2.0'', req_Method = ''add'', req_Params = ''[3, 2]'',
             req_ID = Some (IDNumber 1)\<rparr>"
  note a = failure_returns_nil_and_drops_headers [where s = badEncodeService and hfc = fst
      and ctx = ?ctx and params = "''[3, 2]''" and l = "(False, [])"
      and srv = "serverOf badEncodeService" and rt = testRuntime and r = "post addBody"
      and w = newWriter and canon = "\<lambda>k. k" and ct = "''application/json; charset=utf-8''"]
  note b = failure_returns_nil_and_drops_headers [where s = badDecodeService and hfc = fst
      and ctx = background and params = "''[3, 2]''" and l = "(False, [])"
      and srv = "serverOf badDecodeService" and rt = testRuntime and r = "post addBody"]
  note c = failure_returns_nil_and_drops_headers [where s = badEndpointService and hfc = fst
      and ctx = background and params = "''[3, 2]''" and l = "(False, [])"
      and srv = "serverOf badEndpointService" and rt = testRuntime and r = "post addBody"]
  have p: "r_Method (post addBody) = ''POST''"
    by (simp add: post_def)
  have d: "jsonDecode testRuntime (r_Body (post addBody)) = Some ?req"
    by (simp add: server_defs)
  have n: "sm (serverOf badEncodeService) (req_Method ?req) = Some (ServeJSONRPC fst badEncodeService)"
    by (simp add: serverOf_def NewServer_def)
  have h: "ServeJSONRPC fst badEncodeService
             (HeaderNewContext testRuntime (r_Context (post addBody)) (r_Header (post addBody)))
             (req_Params ?req) (False, []) =
           ((None, None, Some (errors_New ''oof'')), fst (snd ?run), snd (snd ?run))"
    by (simp add: ServeJSONRPC_def Let_def fixture_defs testRuntime_def post_def)
  have e: "err_Headerer (errors_New ''oof'') = None"
    by (simp add: errors_New_def)
  from a p d n h e serverOf_errorEncoder [of badEncodeService]
  have hdr: "w_Header (fst (ServeHTTP testRuntime (serverOf badEncodeService) newWriter (post addBody) (False, []))) =
       Header_Set (\<lambda>k. k) (w_Header newWriter) ''Content-Type'' ''application/json; charset=utf-8''"
    by blast
  have rest: "s_dec badEncodeService (WithValue ''one'' 1 ?ctx) ''[3, 2]'' = Inr ()
   \<and> s_e badEncodeService (WithValue ''one'' 1 ?ctx) () = Inr ()
   \<and> s_enc badEncodeService (WithValue ''one'' 1 ?ctx) () = Inl (errors_New ''oof'')
   \<and> setTrace (WithValue ''one'' 1 ?ctx) [] = (WithValue ''one'' 1 ?ctx, [(''X-Trace'', [''on''])])
   \<and> fst ?run = (None, None, Some (errors_New ''oof''))
   \<and> calls_of (HookKind AfterStage) (fst (snd ?run)) = [HookCall AfterStage 0 (WithValue ''one'' 1 ?ctx) []]
   \<and> fst (ServeJSONRPC fst badDecodeService background ''[3, 2]'' (False, [])) =
       (None, None, Some (errors_New ''oof''))
   \<and> fst (ServeJSONRPC fst badEndpointService background ''[3, 2]'' (False, [])) =
       (None, None, Some (errors_New ''oof''))"
    by (simp add: ServeJSONRPC_def Let_def calls_of_def fixture_defs)
  from b c hdr rest show ?thesis
    by (simp add: newWriter_def Header_Set_def)
qed

text \<open>
  C1. A POST whose body is no JSON, here the body \<open>{\<close>, sent to a server with the
  default error encoder: the status is 200 and the envelope's error has the message of
  \<open>InvalidRequestError\<close>, but its code is -32603 (\<open>InternalError\<close>), not -32600.
  \<open>ServeHTTP\<close> passes the struct value \<open>invalidRequestError{}\<close>, and \<open>ErrorCode\<close> is
  declared on the pointer receiver, so the value is no \<open>ErrorCoder\<close> and the encoder
  keeps its default code; a pointer would report -32600.
\<close>

theorem malformed_body_gets_code_InternalError:
  "jsonDecode testRuntime (r_Body (post ''{'')) = None
   \<and> w_status (fst (ServeHTTP testRuntime (serverOf addService) newWriter (post ''{'') (False, []))) = Some 200
   \<and> w_body (fst (ServeHTTP testRuntime (serverOf addService) newWriter (post ''{'') (False, []))) =
       [JSONEnvelope \<lparr>RespHeaders = None, JSONRPC = ''2.0'', Result = None,
          Error = Some \<lparr>Code = - 32603,
                        Message = ''The JSON sent is not a valid Request object.'',
                        Data = None\<rparr>,
          ID = None\<rparr>]
   \<and> err_ErrorCoder invalidRequestError = None
   \<and> err_ErrorCoder invalidRequestError_ptr = Some (- 32600)"
proof -
  have p: "r_Method (post ''{'') = ''POST''"
    by (simp add: post_def)
  have d: "jsonDecode testRuntime (r_Body (post ''{'')) = None"
    by (simp add: server_defs)
  have f: "w_status newWriter = None"
    by (simp add: newWriter_def)
  have st: "w_status (fst (ServeHTTP testRuntime (serverOf addService) newWriter (post ''{'') (False, []))) = Some 200"
    by (simp add: ServeHTTP_undecodable [OF p d] serverOf_errorEncoder DefaultErrorEncoder_status [OF f])
  show ?thesis
    using d st ServeHTTP_undecodable_default [OF p d serverOf_errorEncoder, of addService newWriter "(False, [])"]
    by (simp add: Version_def newWriter_def InvalidRequestError_def)
qed

end
